theory Spec2Isabelle
  imports Main "HOL-Library.Word" "HOL-Library.List_Lexorder" "HOL-Library.Multiset"
begin

section \<open>The append block of the write-ahead log (tempodb/wal/append\_block.go)\<close>

text \<open>
  The file \<^verbatim>\<open>append_block.go\<close> is embedded function by function. Go strings are byte
  strings (\<^typ>\<open>string\<close>, one \<^typ>\<open>char\<close> per byte), \<^verbatim>\<open>[]byte\<close> is a list of
  8-bit words, \<^verbatim>\<open>uint64\<close> and \<^verbatim>\<open>uint32\<close> are words, a Go \<^verbatim>\<open>error\<close> is a value
  of the datatype \<open>error\<close>, a nilable pointer is an \<open>option\<close>.

  The packages the file calls into (\<^verbatim>\<open>uuid\<close>, \<^verbatim>\<open>backend\<close>, \<^verbatim>\<open>encoding\<close>,
  \<^verbatim>\<open>common\<close>, \<^verbatim>\<open>os\<close>, \<^verbatim>\<open>filepath\<close>) are not part of the embedded file. Their
  functions are the fields of a record \<open>deps\<close> that every embedded function takes as its
  first argument, so each theorem holds for every behaviour of these collaborators
  that satisfies the hypotheses the theorem names.
\<close>

subsection \<open>Errors\<close>

datatype error =
    EOF  \<comment> \<open>\<^verbatim>\<open>io.EOF\<close>\<close>
  | ErrInvalidDataEncoding string  \<comment> \<open>\<^verbatim>\<open>dataEncoding %s is invalid\<close>\<close>
  | ErrSegments string  \<comment> \<open>\<^verbatim>\<open>unable to parse %s. unexpected number of segments\<close>\<close>
  | ErrParseUUID string error  \<comment> \<open>\<^verbatim>\<open>unable to parse %s. error parsing uuid: %w\<close>\<close>
  | ErrParseEncoding string error  \<comment> \<open>\<^verbatim>\<open>unable to parse %s. error parsing encoding: %w\<close>\<close>
  | ErrMissingFields string  \<comment> \<open>\<^verbatim>\<open>unable to parse %s. missing fields\<close>\<close>
  | ErrExternal nat  \<comment> \<open>an error made by a collaborator or by the operating system\<close>

subsection \<open>Data\<close>

type_synonym byte = "8 word"
type_synonym ID = "byte list"  \<comment> \<open>\<^verbatim>\<open>common.ID\<close>, compared byte-lexicographically\<close>

text \<open>\<^verbatim>\<open>common.Record\<close>: where one page lives in the data file.\<close>

record Record =
  ID :: ID
  Start :: "64 word"
  Length :: "32 word"

text \<open>
  \<^verbatim>\<open>backend.BlockMeta\<close>. The source reads and writes the first six fields; the
  identifier bounds and the size are the bookkeeping the specification lists.
\<close>

record ('u, 'e) BlockMeta =
  Version :: string
  BlockID :: 'u
  TenantID :: string
  Encoding :: 'e
  DataEncoding :: string
  TotalObjects :: int
  MinID :: ID
  MaxID :: ID
  Size :: nat

text \<open>Modelled from the spec: \<^verbatim>\<open>backend.NewBlockMeta\<close> is not in the embedded file; it
  fills the five identifying fields and starts the bookkeeping at zero.\<close>

definition NewBlockMeta :: "string \<Rightarrow> 'u \<Rightarrow> string \<Rightarrow> 'e \<Rightarrow> string \<Rightarrow> ('u, 'e) BlockMeta" where
  "NewBlockMeta tenantID blockID version e dataEncoding =
     \<lparr>Version = version, BlockID = blockID, TenantID = tenantID, Encoding = e,
      DataEncoding = dataEncoding, TotalObjects = 0, MinID = [], MaxID = [], Size = 0\<rparr>"

subsection \<open>The operating system and the collaborators\<close>

datatype open_mode =
    O_RDONLY  \<comment> \<open>\<^verbatim>\<open>os.O_RDONLY\<close>\<close>
  | O_APPEND_WRONLY_CREATE_TRUNC  \<comment> \<open>\<^verbatim>\<open>os.O_APPEND|os.O_WRONLY|os.O_CREATE|os.O_TRUNC\<close>\<close>

text \<open>
  The calls the block makes that act on the outside world, in the order it makes them.
  The state of the world is this history; what the operating system answers to a call
  is a function of the history before the call.
\<close>

datatype event =
    SysOpen string open_mode  \<comment> \<open>\<^verbatim>\<open>os.OpenFile(name, flags, 0644)\<close>\<close>
  | SysClose nat  \<comment> \<open>\<^verbatim>\<open>(*os.File).Close()\<close> on a descriptor\<close>
  | SysRemove string  \<comment> \<open>\<^verbatim>\<open>os.Remove(name)\<close>\<close>
  | AppenderComplete  \<comment> \<open>\<^verbatim>\<open>appender.Complete()\<close>\<close>
  | DataReaderClose  \<comment> \<open>\<^verbatim>\<open>dataReader.Close()\<close>\<close>

type_synonym world = "event list"

text \<open>
  One answer of \<^verbatim>\<open>dataReader.NextPage\<close>: an error, or the page's bytes and its length in
  the file. A data reader is the finite sequence of its answers (a data file is finite);
  after the last one \<^verbatim>\<open>NextPage\<close> answers \<^verbatim>\<open>io.EOF\<close>.
\<close>

type_synonym page_read = "error + (byte list \<times> 32 word)"

text \<open>\<^verbatim>\<open>common.ObjectCombiner\<close>: merges the payloads that share an identifier.\<close>

type_synonym combiner = "string \<Rightarrow> byte list list \<Rightarrow> byte list \<times> bool"

text \<open>\<^verbatim>\<open>encoding.Iterator\<close>: the finite sequence of identifiers and objects it yields.\<close>

type_synonym iterator = "(ID \<times> byte list) list"

record ('u, 'e, 'v, 'a, 'dw) deps =
  uuid_String :: "'u \<Rightarrow> string"  \<comment> \<open>\<^verbatim>\<open>uuid.UUID.String\<close>, what \<^verbatim>\<open>%v\<close> prints\<close>
  uuid_Parse :: "string \<Rightarrow> error + 'u"  \<comment> \<open>\<^verbatim>\<open>uuid.Parse\<close>\<close>
  enc_String :: "'e \<Rightarrow> string"  \<comment> \<open>\<^verbatim>\<open>backend.Encoding.String\<close>\<close>
  ParseEncoding :: "string \<Rightarrow> error + 'e"  \<comment> \<open>\<^verbatim>\<open>backend.ParseEncoding\<close>\<close>
  EncNone :: 'e  \<comment> \<open>\<^verbatim>\<open>backend.EncNone\<close>\<close>
  filepath_Join :: "string \<Rightarrow> string \<Rightarrow> string"  \<comment> \<open>\<^verbatim>\<open>filepath.Join\<close> of two elements\<close>
  FromVersion :: "string \<Rightarrow> error + 'v"  \<comment> \<open>\<^verbatim>\<open>encoding.FromVersion\<close>\<close>
  enc_Version :: "'v \<Rightarrow> string"  \<comment> \<open>\<^verbatim>\<open>VersionedEncoding.Version\<close>\<close>
  NewDataWriter :: "'v \<Rightarrow> nat \<Rightarrow> 'e \<Rightarrow> error + 'dw"  \<comment> \<open>\<^verbatim>\<open>VersionedEncoding.NewDataWriter\<close>\<close>
  NewDataReader :: "'v \<Rightarrow> world \<Rightarrow> nat option \<Rightarrow> 'e \<Rightarrow> error + page_read list"
    \<comment> \<open>\<^verbatim>\<open>VersionedEncoding.NewDataReader\<close> over a (possibly nil) file\<close>
  UnmarshalObjectFromReader :: "'v \<Rightarrow> byte list \<Rightarrow> error + (ID \<times> byte list \<times> byte list)"
    \<comment> \<open>\<^verbatim>\<open>ObjectReaderWriter.UnmarshalObjectFromReader\<close>: identifier, object, and the
        bytes left in the reader\<close>
  NewAppender :: "'dw \<Rightarrow> 'a"  \<comment> \<open>\<^verbatim>\<open>encoding.NewAppender\<close>\<close>
  NewRecordAppender :: "Record list \<Rightarrow> 'a"  \<comment> \<open>\<^verbatim>\<open>encoding.NewRecordAppender\<close>\<close>
  Append :: "'a \<Rightarrow> ID \<Rightarrow> byte list \<Rightarrow> error option \<times> 'a"  \<comment> \<open>\<^verbatim>\<open>Appender.Append\<close>\<close>
  RecordsForID :: "'a \<Rightarrow> ID \<Rightarrow> Record list"  \<comment> \<open>\<^verbatim>\<open>Appender.RecordsForID\<close>\<close>
  app_Length :: "'a \<Rightarrow> int"  \<comment> \<open>\<^verbatim>\<open>Appender.Length\<close>\<close>
  Complete :: "'a \<Rightarrow> error option \<times> 'a"  \<comment> \<open>\<^verbatim>\<open>Appender.Complete\<close>\<close>
  ObjectAdded :: "('u, 'e) BlockMeta \<Rightarrow> ID \<Rightarrow> ('u, 'e) BlockMeta"
    \<comment> \<open>\<^verbatim>\<open>BlockMeta.ObjectAdded\<close>\<close>
  finder_Find :: "'v \<Rightarrow> Record list \<Rightarrow> page_read list \<Rightarrow> combiner \<Rightarrow> string \<Rightarrow> ID
      \<Rightarrow> byte list option \<times> error option"
    \<comment> \<open>\<^verbatim>\<open>NewPagedFinder(...).Find\<close>\<close>
  app_Records :: "'a \<Rightarrow> Record list"  \<comment> \<open>\<^verbatim>\<open>Appender.Records\<close>\<close>
  NewRecordIterator :: "'v \<Rightarrow> Record list \<Rightarrow> page_read list \<Rightarrow> iterator"
    \<comment> \<open>\<^verbatim>\<open>encoding.NewRecordIterator\<close>\<close>
  NewDedupingIterator :: "iterator \<Rightarrow> combiner \<Rightarrow> string \<Rightarrow> error + iterator"
    \<comment> \<open>\<^verbatim>\<open>encoding.NewDedupingIterator\<close>\<close>
  os_OpenFile :: "world \<Rightarrow> string \<Rightarrow> open_mode \<Rightarrow> error + nat"
  os_Close :: "world \<Rightarrow> nat \<Rightarrow> error option"
  os_Remove :: "world \<Rightarrow> string \<Rightarrow> error option"

text \<open>
  \<^verbatim>\<open>AppendBlock\<close>. The struct is built in two steps in both constructors: first every
  field but the appender, then the appender. \<open>BlockCore\<close> is the struct before its
  appender is set; the methods that do not touch the appender are defined on every
  extension of it. \<open>once\<close> is \<^verbatim>\<open>sync.Once\<close>: \<open>True\<close> when it has run.
\<close>

record ('u, 'e, 'v) BlockCore =
  meta :: "('u, 'e) BlockMeta"
  encoding :: 'v
  appendFile :: "nat option"
  filepath :: string
  readFile :: "nat option"
  once :: bool

record ('u, 'e, 'v, 'a) AppendBlock = "('u, 'e, 'v) BlockCore" +
  appender :: 'a

definition with_appender :: "('u, 'e, 'v) BlockCore \<Rightarrow> 'a \<Rightarrow> ('u, 'e, 'v, 'a) AppendBlock" where
  "with_appender b app =
     \<lparr>meta = meta b, encoding = encoding b, appendFile = appendFile b, filepath = filepath b,
      readFile = readFile b, once = once b, appender = app\<rparr>"

subsection \<open>Runes\<close>

text \<open>
  \<^verbatim>\<open>len([]rune(s))\<close> counts the runes of a byte string: Go decodes UTF-8, and a byte
  that does not start a well-formed encoding is one rune (\<^verbatim>\<open>utf8.RuneError\<close>) of width 1.
  \<open>rune_width b0 rest\<close> is the number of bytes the first rune of \<open>b0 # rest\<close> takes.
\<close>

definition in_range :: "string \<Rightarrow> nat \<Rightarrow> nat \<Rightarrow> nat \<Rightarrow> bool" where
  "in_range s i lo hi = (i < length s \<and> lo \<le> (of_char (s ! i) :: nat) \<and> (of_char (s ! i) :: nat) \<le> hi)"

definition rune_width :: "char \<Rightarrow> string \<Rightarrow> nat" where
  "rune_width b0 rest =
     (let x = (of_char b0 :: nat) in
      if x < 0x80 then 1
      else if 0xC2 \<le> x \<and> x \<le> 0xDF then (if in_range rest 0 0x80 0xBF then 2 else 1)
      else if 0xE0 \<le> x \<and> x \<le> 0xEF then
        (if in_range rest 0 (if x = 0xE0 then 0xA0 else 0x80) (if x = 0xED then 0x9F else 0xBF)
            \<and> in_range rest 1 0x80 0xBF then 3 else 1)
      else if 0xF0 \<le> x \<and> x \<le> 0xF4 then
        (if in_range rest 0 (if x = 0xF0 then 0x90 else 0x80) (if x = 0xF4 then 0x8F else 0xBF)
            \<and> in_range rest 1 0x80 0xBF \<and> in_range rest 2 0x80 0xBF then 4 else 1)
      else 1)"

fun rune_count :: "string \<Rightarrow> nat" where
  "rune_count [] = 0"
| "rune_count (b0 # rest) = Suc (rune_count (drop (rune_width b0 rest - 1) rest))"

definition maxDataEncodingLength :: nat where
  "maxDataEncodingLength = 32"

subsection \<open>File names\<close>

text \<open>\<^verbatim>\<open>strings.Split(name, ":")\<close>: one more piece than there are colons.\<close>

fun split_colon :: "string \<Rightarrow> string list" where
  "split_colon [] = [[]]"
| "split_colon (c # cs) =
     (if c = CHR '':'' then [] # split_colon cs
      else (case split_colon cs of [] \<Rightarrow> [[c]] | p # ps \<Rightarrow> (c # p) # ps))"

text \<open>The name of the file inside its directory: the \<^verbatim>\<open>fmt.Sprintf\<close> of \<^verbatim>\<open>fullFilename\<close>.\<close>

definition wal_filename ::
  "('u, 'e, 'v, 'a, 'dw) deps \<Rightarrow> ('u, 'e) BlockMeta \<Rightarrow> string" where
  "wal_filename D m =
     (if Version m = ''v0'' then uuid_String D (BlockID m) @ '':'' @ TenantID m
      else if DataEncoding m = [] then
        uuid_String D (BlockID m) @ '':'' @ TenantID m @ '':'' @ Version m @ '':''
          @ enc_String D (Encoding m)
      else
        uuid_String D (BlockID m) @ '':'' @ TenantID m @ '':'' @ Version m @ '':''
          @ enc_String D (Encoding m) @ '':'' @ DataEncoding m)"

definition fullFilename ::
  "('u, 'e, 'v, 'a, 'dw) deps \<Rightarrow> ('u, 'e, 'v, 'z) BlockCore_scheme \<Rightarrow> string" where
  "fullFilename D a =
     (if Version (meta a) = ''v0'' then
        filepath_Join D (filepath a)
          (uuid_String D (BlockID (meta a)) @ '':'' @ TenantID (meta a))
      else
        (let filename =
           (if DataEncoding (meta a) = [] then
              uuid_String D (BlockID (meta a)) @ '':'' @ TenantID (meta a) @ '':''
                @ Version (meta a) @ '':'' @ enc_String D (Encoding (meta a))
            else
              uuid_String D (BlockID (meta a)) @ '':'' @ TenantID (meta a) @ '':''
                @ Version (meta a) @ '':'' @ enc_String D (Encoding (meta a)) @ '':''
                @ DataEncoding (meta a))
         in filepath_Join D (filepath a) filename))"

definition parseFilename ::
  "('u, 'e, 'v, 'a, 'dw) deps \<Rightarrow> string \<Rightarrow> error + ('u \<times> string \<times> string \<times> 'e \<times> string)" where
  "parseFilename D name =
     (let splits = split_colon name in
      if length splits \<noteq> 2 \<and> length splits \<noteq> 4 \<and> length splits \<noteq> 5 then Inl (ErrSegments name)
      else
        let blockIDString = splits ! 0;
            tenantID = splits ! 1;
            version = (if length splits \<ge> 4 then splits ! 2 else ''v0'');
            encodingString = (if length splits \<ge> 4 then splits ! 3 else enc_String D (EncNone D));
            dataEncoding = (if length splits \<ge> 5 then splits ! 4 else [])
        in case uuid_Parse D blockIDString of
             Inl err \<Rightarrow> Inl (ErrParseUUID name err)
           | Inr blockID \<Rightarrow>
               (case ParseEncoding D encodingString of
                  Inl err \<Rightarrow> Inl (ErrParseEncoding name err)
                | Inr e \<Rightarrow>
                    if length tenantID = 0 \<or> length version = 0 then Inl (ErrMissingFields name)
                    else Inr (blockID, tenantID, version, e, dataEncoding)))"

subsection \<open>Opening the read file once\<close>

text \<open>
  The method \<^verbatim>\<open>file\<close>, named \<open>file_once\<close> here since \<^verbatim>\<open>file\<close> is a keyword of
  Isabelle. The function given to \<^verbatim>\<open>once.Do\<close> runs on the first call only. When
  \<^verbatim>\<open>os.OpenFile\<close> fails it returns a nil file, which is stored in \<^verbatim>\<open>readFile\<close>; the
  local \<^verbatim>\<open>err\<close> of a later call is never assigned.
\<close>

definition file_once ::
  "('u, 'e, 'v, 'a, 'dw) deps \<Rightarrow> world \<Rightarrow> ('u, 'e, 'v, 'z) BlockCore_scheme
     \<Rightarrow> (nat option \<times> error option) \<times> world \<times> ('u, 'e, 'v, 'z) BlockCore_scheme" where
  "file_once D w a =
     (if once a then ((readFile a, None), w, a)
      else if readFile a = None then
        (let name = fullFilename D a in
         case os_OpenFile D w name O_RDONLY of
           Inl err \<Rightarrow>
             ((None, Some err), w @ [SysOpen name O_RDONLY], a\<lparr>readFile := None, once := True\<rparr>)
         | Inr f \<Rightarrow>
             ((Some f, None), w @ [SysOpen name O_RDONLY], a\<lparr>readFile := Some f, once := True\<rparr>))
      else ((readFile a, None), w, a\<lparr>once := True\<rparr>))"

subsection \<open>Creating a block\<close>

definition newAppendBlock ::
  "('u, 'e, 'v, 'a, 'dw) deps \<Rightarrow> world \<Rightarrow> 'u \<Rightarrow> string \<Rightarrow> string \<Rightarrow> 'e \<Rightarrow> string
     \<Rightarrow> (error + ('u, 'e, 'v, 'a) AppendBlock) \<times> world" where
  "newAppendBlock D w blockID tenantID path e dataEncoding =
     (if CHR '':'' \<in> set dataEncoding \<or> rune_count dataEncoding > maxDataEncodingLength
      then (Inl (ErrInvalidDataEncoding dataEncoding), w)
      else
        case FromVersion D ''v2'' of
          Inl err \<Rightarrow> (Inl err, w)
        | Inr v \<Rightarrow>
            (let h = \<lparr>meta = NewBlockMeta tenantID blockID (enc_Version D v) e dataEncoding,
                      encoding = v, appendFile = None, filepath = path, readFile = None,
                      once = False\<rparr>;
                 name = fullFilename D h;
                 w1 = w @ [SysOpen name O_APPEND_WRONLY_CREATE_TRUNC]
             in case os_OpenFile D w name O_APPEND_WRONLY_CREATE_TRUNC of
                  Inl err \<Rightarrow> (Inl err, w1)
                | Inr f \<Rightarrow>
                    (case NewDataWriter D v f e of
                       Inl err \<Rightarrow> (Inl err, w1)
                     | Inr dataWriter \<Rightarrow>
                         (Inr (with_appender (h\<lparr>appendFile := Some f\<rparr>) (NewAppender D dataWriter)),
                          w1))))"

subsection \<open>Replaying a data file\<close>

text \<open>
  The \<^verbatim>\<open>for\<close> loop of \<^verbatim>\<open>newAppendBlockFromFile\<close>, over the answers the data reader
  still has to give, with \<^verbatim>\<open>currentOffset\<close> and \<^verbatim>\<open>records\<close>; it returns the records and
  the warning. In the last branch the second decode has succeeded: its \<^verbatim>\<open>err\<close> is nil,
  which is not \<^verbatim>\<open>io.EOF\<close>, so \<^verbatim>\<open>warning = err\<close> stores nil and the loop breaks.
\<close>

fun replayLoop ::
  "('u, 'e, 'v, 'a, 'dw) deps \<Rightarrow> 'v \<Rightarrow> page_read list \<Rightarrow> 64 word \<Rightarrow> Record list
     \<Rightarrow> Record list \<times> error option" where
  "replayLoop D v [] currentOffset records = (records, None)"
| "replayLoop D v (Inl err # rest) currentOffset records =
     (if err = EOF then (records, None) else (records, Some err))"
| "replayLoop D v (Inr (buffer, pageLen) # rest) currentOffset records =
     (case UnmarshalObjectFromReader D v buffer of
        Inl err \<Rightarrow> (records, Some err)
      | Inr (recordID, obj, reader) \<Rightarrow>
          (case UnmarshalObjectFromReader D v reader of
             Inl err \<Rightarrow>
               if err \<noteq> EOF then (records, Some err)
               else replayLoop D v rest (currentOffset + ucast pageLen)
                      (records @ [\<lparr>ID = recordID, Start = currentOffset, Length = pageLen\<rparr>])
           | Inr second \<Rightarrow> (records, None)))"

text \<open>Modelled from the spec: \<^verbatim>\<open>common.SortRecords\<close> is not in the embedded file; the
  specification makes it a stable sort keyed on the identifier bytes, ties keeping their
  arrival order.\<close>

definition SortRecords :: "Record list \<Rightarrow> Record list" where
  "SortRecords records = sort_key ID records"

text \<open>\<^verbatim>\<open>newAppendBlockFromFile\<close> returns the block, the warning and the fatal error.\<close>

definition newAppendBlockFromFile ::
  "('u, 'e, 'v, 'a, 'dw) deps \<Rightarrow> world \<Rightarrow> string \<Rightarrow> string
     \<Rightarrow> (('u, 'e, 'v, 'a) AppendBlock option \<times> error option \<times> error option) \<times> world" where
  "newAppendBlockFromFile D w filename path =
     (case parseFilename D filename of
        Inl err \<Rightarrow> ((None, None, Some err), w)
      | Inr (blockID, tenantID, version, e, dataEncoding) \<Rightarrow>
          (case FromVersion D version of
             Inl err \<Rightarrow> ((None, None, Some err), w)
           | Inr v \<Rightarrow>
               (let b = \<lparr>meta = NewBlockMeta tenantID blockID version e dataEncoding,
                         encoding = v, appendFile = None, filepath = path, readFile = None,
                         once = False\<rparr>
                in case file_once D w b of
                     ((f, Some err), w1, b1) \<Rightarrow> ((None, None, Some err), w1)
                   | ((f, None), w1, b1) \<Rightarrow>
                       (case NewDataReader D (encoding b1) w1 f (Encoding (meta b1)) of
                          Inl err \<Rightarrow> ((None, None, Some err), w1)
                        | Inr dataReader \<Rightarrow>
                            (let (records, warning) = replayLoop D (encoding b1) dataReader 0 [];
                                 app = NewRecordAppender D (SortRecords records);
                                 b2 = with_appender
                                        (b1\<lparr>meta := (meta b1)\<lparr>TotalObjects := app_Length D app\<rparr>\<rparr>) app
                             in ((Some b2, warning, None), w1 @ [DataReaderClose]))))))"

subsection \<open>Write, GetIterator, Find, Clear\<close>

definition Write ::
  "('u, 'e, 'v, 'a, 'dw) deps \<Rightarrow> ('u, 'e, 'v, 'a) AppendBlock \<Rightarrow> ID \<Rightarrow> byte list
     \<Rightarrow> error option \<times> ('u, 'e, 'v, 'a) AppendBlock" where
  "Write D a ident b =
     (case Append D (appender a) ident b of
        (Some err, app) \<Rightarrow> (Some err, a\<lparr>appender := app\<rparr>)
      | (None, app) \<Rightarrow> (None, a\<lparr>appender := app, meta := ObjectAdded D (meta a) ident\<rparr>))"

text \<open>\<^verbatim>\<open>GetIterator\<close> returns early, with the append file still set, when closing it
  fails.\<close>

definition GetIterator ::
  "('u, 'e, 'v, 'a, 'dw) deps \<Rightarrow> world \<Rightarrow> ('u, 'e, 'v, 'a) AppendBlock \<Rightarrow> combiner
     \<Rightarrow> (error + iterator) \<times> world \<times> ('u, 'e, 'v, 'a) AppendBlock" where
  "GetIterator D w a combiner =
     (case (case appendFile a of
              Some af \<Rightarrow> (os_Close D w af, w @ [SysClose af])
            | None \<Rightarrow> (None, w)) of
        (Some err, w1) \<Rightarrow> (Inl err, w1, a)
      | (None, w1) \<Rightarrow>
          (let a1 = a\<lparr>appendFile := None\<rparr>;
               records = app_Records D (appender a1)
           in case file_once D w1 a1 of
                ((rf, Some err), w2, a2) \<Rightarrow> (Inl err, w2, a2)
              | ((rf, None), w2, a2) \<Rightarrow>
                  (case NewDataReader D (encoding a2) w2 rf (Encoding (meta a2)) of
                     Inl err \<Rightarrow> (Inl err, w2, a2)
                   | Inr dataReader \<Rightarrow>
                       (NewDedupingIterator D
                          (NewRecordIterator D (encoding a2) records dataReader) combiner
                          (DataEncoding (meta a2)),
                        w2, a2))))"

definition Find ::
  "('u, 'e, 'v, 'a, 'dw) deps \<Rightarrow> world \<Rightarrow> ('u, 'e, 'v, 'a) AppendBlock \<Rightarrow> ID \<Rightarrow> combiner
     \<Rightarrow> (byte list option \<times> error option) \<times> world \<times> ('u, 'e, 'v, 'a) AppendBlock" where
  "Find D w a ident combiner =
     (let records = RecordsForID D (appender a) ident in
      case file_once D w a of
        ((f, Some err), w1, a1) \<Rightarrow> ((None, Some err), w1, a1)
      | ((f, None), w1, a1) \<Rightarrow>
          if length records = 0 then ((None, None), w1, a1)
          else
            (case NewDataReader D (encoding a1) w1 f (Encoding (meta a1)) of
               Inl err \<Rightarrow> ((None, Some err), w1, a1)
             | Inr dataReader \<Rightarrow>
                 (finder_Find D (encoding a1) records dataReader combiner
                    (DataEncoding (meta a1)) ident,
                  w1 @ [DataReaderClose], a1)))"

definition Clear ::
  "('u, 'e, 'v, 'a, 'dw) deps \<Rightarrow> world \<Rightarrow> ('u, 'e, 'v, 'a) AppendBlock
     \<Rightarrow> error option \<times> world \<times> ('u, 'e, 'v, 'a) AppendBlock" where
  "Clear D w a =
     (let (w1, a1) =
            (case readFile a of
               Some rf \<Rightarrow> (let discarded = os_Close D w rf in (w @ [SysClose rf], a\<lparr>readFile := None\<rparr>))
             | None \<Rightarrow> (w, a));
          (w2, a2) =
            (case appendFile a1 of
               Some af \<Rightarrow> (let discarded = os_Close D w1 af in (w1 @ [SysClose af], a1\<lparr>appendFile := None\<rparr>))
             | None \<Rightarrow> (w1, a1));
          (discarded, app) = Complete D (appender a2);
          a3 = a2\<lparr>appender := app\<rparr>;
          w3 = w2 @ [AppenderComplete];
          name = fullFilename D a3
      in (os_Remove D w3 name, w3 @ [SysRemove name], a3))"

text \<open>The descriptors \<^verbatim>\<open>Clear\<close> closes: the read file, then the append file, each only
  when it is not nil.\<close>

definition Clear_closes :: "('u, 'e, 'v, 'a) AppendBlock \<Rightarrow> world" where
  "Clear_closes a =
     (case readFile a of None \<Rightarrow> [] | Some rf \<Rightarrow> [SysClose rf])
     @ (case appendFile a of None \<Rightarrow> [] | Some af \<Rightarrow> [SysClose af])"

subsection \<open>Notions used by the claims\<close>

text \<open>
  The constraints the specification puts on a \<^verbatim>\<open>BlockMeta\<close>: a valid UUID (its text
  parses back to it), a non-empty tenant and version, a recognised encoding (its token
  parses back to it), a data encoding without a colon and of at most 32 runes.
\<close>

definition meta_constraints ::
  "('u, 'e, 'v, 'a, 'dw) deps \<Rightarrow> ('u, 'e) BlockMeta \<Rightarrow> bool" where
  "meta_constraints D m =
     (uuid_Parse D (uuid_String D (BlockID m)) = Inr (BlockID m)
      \<and> TenantID m \<noteq> [] \<and> Version m \<noteq> []
      \<and> ParseEncoding D (enc_String D (Encoding m)) = Inr (Encoding m)
      \<and> CHR '':'' \<notin> set (DataEncoding m)
      \<and> rune_count (DataEncoding m) \<le> maxDataEncodingLength)"

text \<open>
  What the round trip through the file name needs besides: no field prints with a
  colon, and a block of version \<^verbatim>\<open>v0\<close>, whose name has two fields only, has the
  encoding and the data encoding that parsing two fields gives.
\<close>

definition roundtrip_ok ::
  "('u, 'e, 'v, 'a, 'dw) deps \<Rightarrow> ('u, 'e) BlockMeta \<Rightarrow> bool" where
  "roundtrip_ok D m =
     (meta_constraints D m
      \<and> CHR '':'' \<notin> set (uuid_String D (BlockID m))
      \<and> CHR '':'' \<notin> set (enc_String D (Encoding m))
      \<and> CHR '':'' \<notin> set (TenantID m)
      \<and> CHR '':'' \<notin> set (Version m)
      \<and> (if Version m = ''v0'' then Encoding m = EncNone D \<and> DataEncoding m = [] else True))"

text \<open>
  The cases in which \<^verbatim>\<open>newAppendBlockFromFile\<close> has an early \<^verbatim>\<open>return nil, nil, err\<close>: the
  file name does not parse, the version is unknown to \<^verbatim>\<open>encoding.FromVersion\<close>, the file
  does not open, the data reader cannot be built.
\<close>

definition replay_fatal ::
  "('u, 'e, 'v, 'a, 'dw) deps \<Rightarrow> world \<Rightarrow> string \<Rightarrow> string \<Rightarrow> bool" where
  "replay_fatal D w filename path =
     (case parseFilename D filename of
        Inl err \<Rightarrow> True
      | Inr (blockID, tenantID, version, e, dataEncoding) \<Rightarrow>
          (case FromVersion D version of
             Inl err \<Rightarrow> True
           | Inr v \<Rightarrow>
               (let name = filepath_Join D path
                      (wal_filename D (NewBlockMeta tenantID blockID version e dataEncoding))
                in case os_OpenFile D w name O_RDONLY of
                     Inl err \<Rightarrow> True
                   | Inr f \<Rightarrow> isl (NewDataReader D v (w @ [SysOpen name O_RDONLY]) (Some f) e))))"

text \<open>
  What one answer of the data reader does to the walk: a page of exactly one object
  gives a record; an error stops the walk with that error; the end of the stream stops
  it silently, and so does a page whose second decode succeeds.
\<close>

datatype page_outcome = Single ID | Failed error | Silent

fun classify_page :: "('u, 'e, 'v, 'a, 'dw) deps \<Rightarrow> 'v \<Rightarrow> page_read \<Rightarrow> page_outcome" where
  "classify_page D v (Inl err) = (if err = EOF then Silent else Failed err)"
| "classify_page D v (Inr (buffer, pageLen)) =
     (case UnmarshalObjectFromReader D v buffer of
        Inl err \<Rightarrow> Failed err
      | Inr (recordID, obj, reader) \<Rightarrow>
          (case UnmarshalObjectFromReader D v reader of
             Inl err \<Rightarrow> if err = EOF then Single recordID else Failed err
           | Inr second \<Rightarrow> Silent))"

text \<open>Records that follow one another in the file, the first one starting at \<open>off\<close>.\<close>

fun contiguous_from :: "64 word \<Rightarrow> Record list \<Rightarrow> bool" where
  "contiguous_from off [] = True"
| "contiguous_from off (r # rs) = (Start r = off \<and> contiguous_from (off + ucast (Length r)) rs)"

definition record_lengths :: "Record list \<Rightarrow> nat list" where
  "record_lengths rs = map (\<lambda>r. unat (Length r)) rs"

text \<open>The lengths of the pages a data reader gives. A data file is a sequence of
  non-empty pages and is shorter than \<open>2 ^ 64\<close> bytes: \<open>pages_fit\<close>.\<close>

fun page_lengths :: "page_read list \<Rightarrow> nat list" where
  "page_lengths [] = []"
| "page_lengths (Inl err # pages) = page_lengths pages"
| "page_lengths (Inr (buffer, pageLen) # pages) = unat pageLen # page_lengths pages"

definition pages_fit :: "page_read list \<Rightarrow> bool" where
  "pages_fit pages = (0 \<notin> set (page_lengths pages) \<and> sum_list (page_lengths pages) < 2 ^ 64)"

section \<open>A sample environment\<close>

text \<open>
  One concrete choice of the collaborators, to run the embedded functions on concrete
  inputs. A UUID is its canonical 36-character text; three page encodings are known;
  \<^verbatim>\<open>filepath.Join\<close> is given for clean elements; versions \<^verbatim>\<open>v0\<close>, \<^verbatim>\<open>v1\<close> and
  \<^verbatim>\<open>v2\<close> exist; an encoded object is the length of the identifier, the identifier, the
  length of the payload, the payload; a file is present once it was created and until it
  is removed; the data reader of every opened file gives the pages \<open>pages\<close>; closing a
  descriptor twice and completing the appender both fail.
\<close>

datatype sample_encoding = SampleNone | SampleGzip | SampleSnappy

fun sample_enc_String :: "sample_encoding \<Rightarrow> string" where
  "sample_enc_String SampleNone = ''none''"
| "sample_enc_String SampleGzip = ''gzip''"
| "sample_enc_String SampleSnappy = ''snappy''"

definition sample_ParseEncoding :: "string \<Rightarrow> error + sample_encoding" where
  "sample_ParseEncoding s =
     (if s = ''none'' then Inr SampleNone
      else if s = ''gzip'' then Inr SampleGzip
      else if s = ''snappy'' then Inr SampleSnappy
      else Inl (ErrExternal 1))"

definition sample_uuid_Parse :: "string \<Rightarrow> error + string" where
  "sample_uuid_Parse s =
     (if length s = 36 \<and> s ! 8 = CHR ''-'' \<and> s ! 13 = CHR ''-'' \<and> s ! 18 = CHR ''-''
         \<and> s ! 23 = CHR ''-'' \<and> list_all (\<lambda>c. c \<in> set ''0123456789abcdef-'') s
      then Inr s else Inl (ErrExternal 2))"

definition sample_Join :: "string \<Rightarrow> string \<Rightarrow> string" where
  "sample_Join dir name = (if dir = [] then name else dir @ ''/'' @ name)"

definition sample_FromVersion :: "string \<Rightarrow> error + string" where
  "sample_FromVersion s =
     (if s = ''v0'' \<or> s = ''v1'' \<or> s = ''v2'' then Inr s else Inl (ErrExternal 3))"

definition sample_Unmarshal :: "byte list \<Rightarrow> error + (ID \<times> byte list \<times> byte list)" where
  "sample_Unmarshal bs =
     (case bs of
        [] \<Rightarrow> Inl EOF
      | n # r \<Rightarrow>
          if length r < unat n then Inl (ErrExternal 4)
          else
            (case drop (unat n) r of
               [] \<Rightarrow> Inl (ErrExternal 4)
             | k # r' \<Rightarrow>
                 if length r' < unat k then Inl (ErrExternal 4)
                 else Inr (take (unat n) r, take (unat k) r', drop (unat k) r')))"

definition sample_present :: "world \<Rightarrow> string \<Rightarrow> bool" where
  "sample_present w name =
     foldl (\<lambda>p ev. if ev = SysOpen name O_APPEND_WRONLY_CREATE_TRUNC then True
                    else if ev = SysRemove name then False else p) False w"

definition sample_ObjectAdded :: "(string, sample_encoding) BlockMeta \<Rightarrow> ID
    \<Rightarrow> (string, sample_encoding) BlockMeta" where
  "sample_ObjectAdded m ident =
     m\<lparr>TotalObjects := TotalObjects m + 1,
       MinID := (if MinID m = [] \<or> ident < MinID m then ident else MinID m),
       MaxID := (if MaxID m = [] \<or> MaxID m < ident then ident else MaxID m)\<rparr>"

definition sample_deps ::
  "page_read list \<Rightarrow> (string, sample_encoding, string, Record list, nat) deps" where
  "sample_deps pages =
     \<lparr>uuid_String = (\<lambda>u. u),
      uuid_Parse = sample_uuid_Parse,
      enc_String = sample_enc_String,
      ParseEncoding = sample_ParseEncoding,
      EncNone = SampleNone,
      filepath_Join = sample_Join,
      FromVersion = sample_FromVersion,
      enc_Version = (\<lambda>v. v),
      NewDataWriter = (\<lambda>v f e. Inr f),
      NewDataReader = (\<lambda>v w f e. case f of None \<Rightarrow> Inl (ErrExternal 5) | Some h \<Rightarrow> Inr pages),
      UnmarshalObjectFromReader = (\<lambda>v. sample_Unmarshal),
      NewAppender = (\<lambda>dw. []),
      NewRecordAppender = (\<lambda>records. records),
      Append = (\<lambda>app ident b.
        if b = [] then (Some (ErrExternal 6), app)
        else (None, app @ [\<lparr>ID = ident, Start = 0, Length = of_nat (length b)\<rparr>])),
      RecordsForID = (\<lambda>app ident. filter (\<lambda>r. ID r = ident) app),
      app_Length = (\<lambda>app. int (length app)),
      Complete = (\<lambda>app. (Some (ErrExternal 7), app)),
      ObjectAdded = sample_ObjectAdded,
      finder_Find = (\<lambda>v records dataReader combiner dataEncoding ident. (Some [], None)),
      app_Records = (\<lambda>app. app),
      NewRecordIterator = (\<lambda>v records dataReader. map (\<lambda>r. (ID r, [])) records),
      NewDedupingIterator = (\<lambda>it combiner dataEncoding. Inr it),
      os_OpenFile = (\<lambda>w name mode.
        if mode = O_RDONLY \<and> \<not> sample_present w name then Inl (ErrExternal 8)
        else Inr (length w)),
      os_Close = (\<lambda>w h. if SysClose h \<in> set w then Some (ErrExternal 9) else None),
      os_Remove = (\<lambda>w name. if sample_present w name then None else Some (ErrExternal 8))\<rparr>"

text \<open>An encoded object of the sample codec, and sample blocks and file names.\<close>

definition sample_object :: "ID \<Rightarrow> byte list \<Rightarrow> byte list" where
  "sample_object ident payload =
     of_nat (length ident) # ident @ of_nat (length payload) # payload"

definition sample_uuid :: string where
  "sample_uuid = ''123e4567-e89b-12d3-a456-426614174000''"

definition sample_name :: string where
  "sample_name = sample_uuid @ '':tenant:v2:snappy:v1''"

definition sample_block :: "(string, sample_encoding, string, Record list) AppendBlock" where
  "sample_block =
     \<lparr>meta = NewBlockMeta ''tenant'' sample_uuid ''v2'' SampleSnappy ''v1'',
      encoding = ''v2'', appendFile = Some 0, filepath = ''/wal'', readFile = None,
      once = False, appender = []\<rparr>"

text \<open>Data encodings of 32 and 33 runes; the third has 32 runes in 64 bytes.\<close>

definition sample_enc32 :: string where
  "sample_enc32 = ''abcdefghijklmnopqrstuvwxyz012345''"

definition sample_enc33 :: string where
  "sample_enc33 = ''abcdefghijklmnopqrstuvwxyz0123456''"

definition sample_enc32_utf8 :: string where
  "sample_enc32_utf8 = concat (replicate 32 [CHR 0xC3, CHR 0xA9])"

definition sample_combiner :: combiner where
  "sample_combiner dataEncoding objs = (concat objs, False)"

text \<open>\<open>sample_block\<close> after a failed first open of its read file.\<close>

definition sample_failed :: "(string, sample_encoding, string, Record list) AppendBlock" where
  "sample_failed = sample_block\<lparr>readFile := None, once := True\<rparr>"

text \<open>Blocks in the empty directory: one whose name has four fields, one of version
  \<^verbatim>\<open>v0\<close>, one whose tenant has a colon, one of version \<^verbatim>\<open>v0\<close> with a compressed
  encoding and a data encoding.\<close>

definition sample_block4 :: "(string, sample_encoding, string, Record list) AppendBlock" where
  "sample_block4 =
     \<lparr>meta = NewBlockMeta ''tenant'' sample_uuid ''v2'' SampleGzip [],
      encoding = ''v2'', appendFile = None, filepath = [], readFile = None,
      once = False, appender = []\<rparr>"

definition sample_block2 :: "(string, sample_encoding, string, Record list) AppendBlock" where
  "sample_block2 =
     \<lparr>meta = NewBlockMeta ''tenant'' sample_uuid ''v0'' SampleNone [],
      encoding = ''v0'', appendFile = None, filepath = [], readFile = None,
      once = False, appender = []\<rparr>"

definition sample_block_colon :: "(string, sample_encoding, string, Record list) AppendBlock" where
  "sample_block_colon =
     \<lparr>meta = NewBlockMeta ''a:b'' sample_uuid ''v2'' SampleNone [],
      encoding = ''v2'', appendFile = None, filepath = [], readFile = None,
      once = False, appender = []\<rparr>"

definition sample_block_v0 :: "(string, sample_encoding, string, Record list) AppendBlock" where
  "sample_block_v0 =
     \<lparr>meta = NewBlockMeta ''tenant'' sample_uuid ''v0'' SampleSnappy ''v1'',
      encoding = ''v0'', appendFile = None, filepath = [], readFile = None,
      once = False, appender = []\<rparr>"

text \<open>A world in which an earlier process created the file of \<open>sample_name\<close> in
  \<^verbatim>\<open>/wal\<close>, and one in which it created a file whose name has the unknown version
  \<^verbatim>\<open>v9\<close>.\<close>

definition sample_world :: world where
  "sample_world = [SysOpen (''/wal/'' @ sample_name) O_APPEND_WRONLY_CREATE_TRUNC]"

definition sample_name_v9 :: string where
  "sample_name_v9 = sample_uuid @ '':tenant:v9:none''"

definition sample_world_v9 :: world where
  "sample_world_v9 = [SysOpen (''/wal/'' @ sample_name_v9) O_APPEND_WRONLY_CREATE_TRUNC]"

text \<open>The sample environment with a codec that cannot build its data reader.\<close>

definition sample_deps_no_reader ::
  "(string, sample_encoding, string, Record list, nat) deps" where
  "sample_deps_no_reader = (sample_deps [])\<lparr>NewDataReader := (\<lambda>v w f e. Inl (ErrExternal 5))\<rparr>"

text \<open>Data files: three pages of one object each, written in the order of identifiers
  3, 1, 2; the same with a second object in the second page; the same with the third
  page cut short.\<close>

definition sample_pages :: "page_read list" where
  "sample_pages =
     [Inr (sample_object [3] [9, 9], 10), Inr (sample_object [1] [7], 9),
      Inr (sample_object [2] [5], 9)]"

definition sample_pages_two_objects :: "page_read list" where
  "sample_pages_two_objects =
     [Inr (sample_object [3] [9, 9], 10), Inr (sample_object [1] [7] @ sample_object [2] [8], 14),
      Inr (sample_object [2] [5], 9)]"

definition sample_pages_truncated :: "page_read list" where
  "sample_pages_truncated =
     [Inr (sample_object [3] [9, 9], 10), Inr (sample_object [1] [7], 9),
      Inr (take 3 (sample_object [2] [5]), 3)]"

text \<open>The block that replaying \<open>sample_pages\<close> gives.\<close>

definition sample_replayed :: "(string, sample_encoding, string, Record list) AppendBlock" where
  "sample_replayed =
     \<lparr>meta = (NewBlockMeta ''tenant'' sample_uuid ''v2'' SampleSnappy ''v1'')\<lparr>TotalObjects := 3\<rparr>,
      encoding = ''v2'', appendFile = None, filepath = ''/wal'', readFile = Some 1, once = True,
      appender = [\<lparr>ID = [1], Start = 10, Length = 9\<rparr>, \<lparr>ID = [2], Start = 19, Length = 9\<rparr>,
                  \<lparr>ID = [3], Start = 0, Length = 10\<rparr>]\<rparr>"

text \<open>A data file whose second page is cut short and whose third page is whole, and the
  block that replaying it gives.\<close>

definition sample_pages_cut :: "page_read list" where
  "sample_pages_cut =
     [Inr (sample_object [3] [9, 9], 10), Inr (take 3 (sample_object [1] [7]), 3),
      Inr (sample_object [2] [5], 9)]"

definition sample_replayed_cut :: "(string, sample_encoding, string, Record list) AppendBlock" where
  "sample_replayed_cut =
     \<lparr>meta = (NewBlockMeta ''tenant'' sample_uuid ''v2'' SampleSnappy ''v1'')\<lparr>TotalObjects := 1\<rparr>,
      encoding = ''v2'', appendFile = None, filepath = ''/wal'', readFile = Some 1, once = True,
      appender = [\<lparr>ID = [3], Start = 0, Length = 10\<rparr>]\<rparr>"

section \<open>Basic facts\<close>

lemma NewBlockMeta_fields [simp]:
  "Version (NewBlockMeta t u ver e d) = ver"
  "BlockID (NewBlockMeta t u ver e d) = u"
  "TenantID (NewBlockMeta t u ver e d) = t"
  "Encoding (NewBlockMeta t u ver e d) = e"
  "DataEncoding (NewBlockMeta t u ver e d) = d"
  "TotalObjects (NewBlockMeta t u ver e d) = 0"
  by (simp_all add: NewBlockMeta_def)

text \<open>The path \<^verbatim>\<open>fullFilename\<close> builds is the directory joined with the file name.\<close>

lemma fullFilename_Join:
  "fullFilename D a = filepath_Join D (filepath a) (wal_filename D (meta a))"
  by (simp add: fullFilename_def wal_filename_def Let_def)

lemma file_once_consumed:
  "once a \<Longrightarrow> file_once D w a = ((readFile a, None), w, a)"
  by (simp add: file_once_def)

lemma file_once_sets_guard: "once (snd (snd (file_once D w a)))"
  by (simp add: file_once_def Let_def split: sum.splits)

lemmas sample_names = sample_deps_def sample_Join_def sample_uuid_def sample_name_def
  sample_uuid_Parse_def sample_ParseEncoding_def

lemmas sample_replay = sample_names sample_FromVersion_def sample_present_def sample_world_def
  sample_Unmarshal_def sample_object_def

section \<open>Creating a block: the data encoding\<close>

text \<open>
  Claim C8. \<^verbatim>\<open>newAppendBlock\<close> accepts a data encoding of exactly 32 runes (one without a
  colon, since every string with a colon is rejected): when the collaborators succeed, a
  block with that data encoding is returned and its file is created. A data encoding of
  33 runes, and any data encoding containing \<^verbatim>\<open>:\<close>, is rejected with the invalid-input
  error; no block is returned and the world is unchanged, so no file is created.
\<close>

theorem newAppendBlock_dataEncoding:
  "(rune_count d = 32 \<and> CHR '':'' \<notin> set d \<and> FromVersion D ''v2'' = Inr v
      \<and> name = filepath_Join D p (wal_filename D (NewBlockMeta t u (enc_Version D v) e d))
      \<and> os_OpenFile D w name O_APPEND_WRONLY_CREATE_TRUNC = Inr f
      \<and> NewDataWriter D v f e = Inr dw
    \<longrightarrow> (\<exists>b. newAppendBlock D w u t p e d = (Inr b, w @ [SysOpen name O_APPEND_WRONLY_CREATE_TRUNC])
           \<and> DataEncoding (meta b) = d \<and> appendFile b = Some f))
   \<and> (rune_count d = 33 \<longrightarrow> newAppendBlock D w u t p e d = (Inl (ErrInvalidDataEncoding d), w))
   \<and> (CHR '':'' \<in> set d \<longrightarrow> newAppendBlock D w u t p e d = (Inl (ErrInvalidDataEncoding d), w))"
  by (auto simp: newAppendBlock_def maxDataEncodingLength_def fullFilename_Join Let_def
      with_appender_def)

text \<open>The theorem at three data encodings: 32 letters are accepted and the file is
  created in \<^verbatim>\<open>/wal\<close>; 33 letters and \<^verbatim>\<open>a:b\<close> are rejected in the empty world, which
  stays empty.\<close>

theorem newAppendBlock_dataEncoding_witness:
  "rune_count sample_enc32 = 32 \<and> CHR '':'' \<notin> set sample_enc32
   \<and> (\<exists>b. newAppendBlock (sample_deps []) [] sample_uuid ''tenant'' ''/wal'' SampleSnappy sample_enc32
          = (Inr b, [SysOpen (''/wal/'' @ sample_uuid @ '':tenant:v2:snappy:'' @ sample_enc32)
                       O_APPEND_WRONLY_CREATE_TRUNC])
        \<and> DataEncoding (meta b) = sample_enc32 \<and> appendFile b = Some 0)
   \<and> rune_count sample_enc33 = 33
   \<and> newAppendBlock (sample_deps []) [] sample_uuid ''tenant'' ''/wal'' SampleSnappy sample_enc33
        = (Inl (ErrInvalidDataEncoding sample_enc33), [])
   \<and> newAppendBlock (sample_deps []) [] sample_uuid ''tenant'' ''/wal'' SampleSnappy ''a:b''
        = (Inl (ErrInvalidDataEncoding ''a:b''), [])"
proof -
  have r32: "rune_count sample_enc32 = 32"
    by (simp add: sample_enc32_def rune_width_def)
  have r33: "rune_count sample_enc33 = 33"
    by (simp add: sample_enc33_def rune_width_def)
  have c: "CHR '':'' \<notin> set sample_enc32" by (simp add: sample_enc32_def)
  have n: "''/wal/'' @ sample_uuid @ '':tenant:v2:snappy:'' @ sample_enc32
       = filepath_Join (sample_deps []) ''/wal''
           (wal_filename (sample_deps [])
              (NewBlockMeta ''tenant'' sample_uuid (enc_Version (sample_deps []) ''v2'')
                 SampleSnappy sample_enc32))"
    by (simp add: sample_deps_def sample_Join_def sample_uuid_def wal_filename_def sample_enc32_def)
  have v: "FromVersion (sample_deps []) ''v2'' = Inr ''v2''"
    by (simp add: sample_deps_def sample_FromVersion_def)
  have op: "os_OpenFile (sample_deps []) []
      (''/wal/'' @ sample_uuid @ '':tenant:v2:snappy:'' @ sample_enc32)
      O_APPEND_WRONLY_CREATE_TRUNC = Inr 0"
    by (simp add: sample_deps_def)
  have dw: "NewDataWriter (sample_deps []) ''v2'' 0 SampleSnappy = Inr 0"
    by (simp add: sample_deps_def)
  have c2: "CHR '':'' \<in> set ''a:b''" by simp
  note t1 = newAppendBlock_dataEncoding [where d = sample_enc32 and D = "sample_deps []"
        and v = "''v2''"
        and name = "''/wal/'' @ sample_uuid @ '':tenant:v2:snappy:'' @ sample_enc32"
        and p = "''/wal''" and t = "''tenant''" and u = sample_uuid and e = SampleSnappy
        and w = "[]" and f = 0 and dw = 0, unfolded append_Nil]
  note t2 = newAppendBlock_dataEncoding [where d = sample_enc33 and D = "sample_deps []"
        and p = "''/wal''" and t = "''tenant''" and u = sample_uuid and e = SampleSnappy
        and w = "[]"]
  note t3 = newAppendBlock_dataEncoding [where d = "''a:b''" and D = "sample_deps []"
        and p = "''/wal''" and t = "''tenant''" and u = sample_uuid and e = SampleSnappy
        and w = "[]"]
  from t1 r32 c n v op dw
  have A: "\<exists>b. newAppendBlock (sample_deps []) [] sample_uuid ''tenant'' ''/wal'' SampleSnappy sample_enc32
          = (Inr b, [SysOpen (''/wal/'' @ sample_uuid @ '':tenant:v2:snappy:'' @ sample_enc32)
                       O_APPEND_WRONLY_CREATE_TRUNC])
        \<and> DataEncoding (meta b) = sample_enc32 \<and> appendFile b = Some 0" by blast
  from t2 r33
  have B: "newAppendBlock (sample_deps []) [] sample_uuid ''tenant'' ''/wal'' SampleSnappy sample_enc33
        = (Inl (ErrInvalidDataEncoding sample_enc33), [])" by blast
  from t3 c2
  have C: "newAppendBlock (sample_deps []) [] sample_uuid ''tenant'' ''/wal'' SampleSnappy ''a:b''
        = (Inl (ErrInvalidDataEncoding ''a:b''), [])" by blast
  from r32 c A r33 B C show ?thesis by blast
qed

text \<open>Runes are not bytes: 32 two-byte runes, 64 bytes, pass the check of
  \<^verbatim>\<open>newAppendBlock\<close>.\<close>

lemma newAppendBlock_counts_runes:
  "length sample_enc32_utf8 = 64 \<and> rune_count sample_enc32_utf8 = 32
   \<and> \<not> isl (fst (newAppendBlock (sample_deps []) [] sample_uuid ''tenant'' ''/wal'' SampleSnappy
                 sample_enc32_utf8))"
proof -
  have r: "length sample_enc32_utf8 = 64 \<and> rune_count sample_enc32_utf8 = 32" by code_simp
  have c: "CHR '':'' \<notin> set sample_enc32_utf8" by (simp add: sample_enc32_utf8_def)
  from r c show ?thesis
    by (simp add: newAppendBlock_def maxDataEncodingLength_def sample_deps_def
        sample_FromVersion_def Let_def)
qed

section \<open>Write\<close>

text \<open>
  Claim C5. When the appender's \<^verbatim>\<open>Append\<close> fails, \<^verbatim>\<open>Write\<close> returns that error and the
  block's meta is unchanged (no count, size or identifier bound moves). When it
  succeeds, \<^verbatim>\<open>Write\<close> returns nil and the meta is the result of \<^verbatim>\<open>ObjectAdded\<close>.
\<close>

theorem Write_bookkeeping:
  "(\<forall>err app. Append D (appender a) i b = (Some err, app) \<longrightarrow>
      fst (Write D a i b) = Some err \<and> meta (snd (Write D a i b)) = meta a)
   \<and> (\<forall>app. Append D (appender a) i b = (None, app) \<longrightarrow>
      fst (Write D a i b) = None \<and> meta (snd (Write D a i b)) = ObjectAdded D (meta a) i)"
  by (simp add: Write_def)

text \<open>The theorem on \<open>sample_block\<close>: appending an empty payload fails and the meta
  stays; appending a payload succeeds and one object is counted.\<close>

theorem Write_bookkeeping_witness:
  "Append (sample_deps []) (appender sample_block) [1] [] = (Some (ErrExternal 6), [])
   \<and> fst (Write (sample_deps []) sample_block [1] []) = Some (ErrExternal 6)
   \<and> meta (snd (Write (sample_deps []) sample_block [1] [])) = meta sample_block
   \<and> Append (sample_deps []) (appender sample_block) [1] [2]
        = (None, [\<lparr>ID = [1], Start = 0, Length = 1\<rparr>])
   \<and> fst (Write (sample_deps []) sample_block [1] [2]) = None
   \<and> TotalObjects (meta (snd (Write (sample_deps []) sample_block [1] [2]))) = 1"
proof -
  have a1: "Append (sample_deps []) (appender sample_block) [1] [] = (Some (ErrExternal 6), [])"
    by (simp add: sample_deps_def sample_block_def)
  have a2: "Append (sample_deps []) (appender sample_block) [1] [2]
        = (None, [\<lparr>ID = [1], Start = 0, Length = 1\<rparr>])"
    by (simp add: sample_deps_def sample_block_def)
  have oa: "TotalObjects (ObjectAdded (sample_deps []) (meta sample_block) [1]) = 1"
    by (simp add: sample_deps_def sample_block_def sample_ObjectAdded_def)
  note t1 = Write_bookkeeping [where D = "sample_deps []" and a = sample_block and i = "[1]"
      and b = "[]"]
  note t2 = Write_bookkeeping [where D = "sample_deps []" and a = sample_block and i = "[1]"
      and b = "[2]"]
  from t1 a1 have A: "fst (Write (sample_deps []) sample_block [1] []) = Some (ErrExternal 6)
     \<and> meta (snd (Write (sample_deps []) sample_block [1] [])) = meta sample_block" by blast
  from t2 a2 have B: "fst (Write (sample_deps []) sample_block [1] [2]) = None
     \<and> meta (snd (Write (sample_deps []) sample_block [1] [2]))
         = ObjectAdded (sample_deps []) (meta sample_block) [1]" by blast
  from a1 a2 A B oa show ?thesis by simp
qed

section \<open>Clear\<close>

text \<open>
  Claim C7. \<^verbatim>\<open>Clear\<close> closes the read file and the append file when they are not nil (a
  nil handle is skipped), completes the appender, then removes the file; both handles
  are nil afterwards. The error it returns is the one \<^verbatim>\<open>os.Remove\<close> returns: whatever
  errors closing and completing return (any \<open>c\<close> and \<open>k\<close> below), the result is the same.
\<close>

theorem Clear_surfaces_only_removal:
  "Clear D w a =
     (os_Remove D (w @ Clear_closes a @ [AppenderComplete]) (fullFilename D a),
      w @ Clear_closes a @ [AppenderComplete, SysRemove (fullFilename D a)],
      a\<lparr>readFile := None, appendFile := None, appender := snd (Complete D (appender a))\<rparr>)
   \<and> (\<forall>c k. fst (Clear (D\<lparr>os_Close := c, Complete := (\<lambda>app. (k app, snd (Complete D app)))\<rparr>) w a)
         = fst (Clear D w a))"
  by (cases "readFile a"; cases "appendFile a")
     (auto simp: Clear_def Clear_closes_def fullFilename_Join wal_filename_def Let_def
        split: prod.splits)

text \<open>On \<open>sample_block\<close>, whose append file is open and whose read file is nil: one
  close, the completion (which fails in the sample environment), the removal, whose
  error is the one returned.\<close>

lemma Clear_sample:
  "Clear (sample_deps []) [] sample_block =
     (Some (ErrExternal 8), [SysClose 0, AppenderComplete, SysRemove (''/wal/'' @ sample_name)],
      sample_block\<lparr>appendFile := None\<rparr>)"
  by (simp add: Clear_def fullFilename_def sample_deps_def sample_block_def sample_Join_def
      sample_name_def sample_present_def Let_def)

section \<open>The once-guard of the read file\<close>

text \<open>
  Claim C10. A call of \<^verbatim>\<open>file\<close> always leaves the guard consumed, and a call on a
  consumed guard opens nothing: it returns the stored handle and a nil error and leaves
  the world as it is, so at most one open is attempted per block. When the first open
  fails, that call returns a nil handle and the error; every later call, in whatever
  world, returns a nil handle and a nil error and changes nothing. So \<^verbatim>\<open>Find\<close> on an
  identifier without records returns nil and nil, and \<^verbatim>\<open>GetIterator\<close> (its append file
  closed) goes on to build its data reader over the nil file.
\<close>

theorem file_once_failure_not_cached:
  "(once a \<longrightarrow> file_once D w a = ((readFile a, None), w, a))
   \<and> once (snd (snd (file_once D w a)))
   \<and> (\<not> once a \<and> readFile a = None \<and> os_OpenFile D w (fullFilename D a) O_RDONLY = Inl err
        \<and> a' = a\<lparr>readFile := None, once := True\<rparr> \<longrightarrow>
      file_once D w a = ((None, Some err), w @ [SysOpen (fullFilename D a) O_RDONLY], a')
      \<and> (\<forall>w'. file_once D w' a' = ((None, None), w', a'))
      \<and> (\<forall>w' i c. RecordsForID D (appender a') i = [] \<longrightarrow>
            Find D w' a' i c = ((None, None), w', a'))
      \<and> (\<forall>w' c. appendFile a' = None \<longrightarrow>
            GetIterator D w' a' c =
              (case NewDataReader D (encoding a') w' None (Encoding (meta a')) of
                 Inl e \<Rightarrow> (Inl e, w', a')
               | Inr dataReader \<Rightarrow>
                   (NewDedupingIterator D
                      (NewRecordIterator D (encoding a') (app_Records D (appender a')) dataReader)
                      c (DataEncoding (meta a')),
                    w', a'))))"
  by (auto simp: file_once_def Find_def GetIterator_def Let_def split: sum.splits)

text \<open>The theorem on \<open>sample_block\<close> in the empty world, where the file is missing:
  the first call reports the error, the next ones do not, whether or not the file
  exists by then.\<close>

theorem file_once_failure_not_cached_witness:
  "\<not> once sample_block \<and> readFile sample_block = None
   \<and> os_OpenFile (sample_deps []) [] (fullFilename (sample_deps []) sample_block) O_RDONLY
        = Inl (ErrExternal 8)
   \<and> file_once (sample_deps []) [] sample_block
        = ((None, Some (ErrExternal 8)), [SysOpen (''/wal/'' @ sample_name) O_RDONLY], sample_failed)
   \<and> file_once (sample_deps []) [SysOpen (''/wal/'' @ sample_name) O_RDONLY] sample_failed
        = ((None, None), [SysOpen (''/wal/'' @ sample_name) O_RDONLY], sample_failed)
   \<and> file_once (sample_deps []) sample_world sample_failed
        = ((None, None), sample_world, sample_failed)"
proof -
  have n: "fullFilename (sample_deps []) sample_block = ''/wal/'' @ sample_name"
    by (simp add: fullFilename_def sample_deps_def sample_block_def sample_Join_def sample_name_def)
  have h1: "\<not> once sample_block" "readFile sample_block = None"
    by (simp_all add: sample_block_def)
  have h2: "os_OpenFile (sample_deps []) [] (fullFilename (sample_deps []) sample_block) O_RDONLY
        = Inl (ErrExternal 8)"
    by (simp add: sample_deps_def sample_present_def)
  note t = file_once_failure_not_cached [where D = "sample_deps []" and w = "[]"
      and a = sample_block and err = "ErrExternal 8" and a' = sample_failed,
      unfolded append_Nil n]
  from t h1 h2 [unfolded n] sample_failed_def
  have A: "file_once (sample_deps []) [] sample_block
        = ((None, Some (ErrExternal 8)), [SysOpen (''/wal/'' @ sample_name) O_RDONLY], sample_failed)
      \<and> (\<forall>w'. file_once (sample_deps []) w' sample_failed = ((None, None), w', sample_failed))"
    by blast
  from A h1 h2 show ?thesis by simp
qed

section \<open>Find on an identifier without records\<close>

text \<open>
  Claim C6, amended. For an identifier without records \<^verbatim>\<open>Find\<close> returns a nil payload.
  Its error is nil when the read file was opened before or its guard is consumed, and
  when this call's open succeeds; when this call makes the first open and it fails,
  \<^verbatim>\<open>Find\<close> returns the open error, since it opens the file before it looks at the records.
\<close>

theorem Find_absent:
  assumes "RecordsForID D (appender a) i = []"
  shows "fst (Find D w a i c) =
     (None, if once a \<or> readFile a \<noteq> None then None
            else (case os_OpenFile D w (fullFilename D a) O_RDONLY of
                    Inl err \<Rightarrow> Some err | Inr f \<Rightarrow> None))"
  using assms by (auto simp: Find_def file_once_def Let_def split: sum.splits)

text \<open>The theorem on \<open>sample_block\<close>, which has no records: where the file exists
  \<^verbatim>\<open>Find\<close> returns nil and nil; where it is missing, nil and the open error.\<close>

theorem Find_absent_witness:
  "RecordsForID (sample_deps []) (appender sample_block) [1] = []
   \<and> fst (Find (sample_deps []) sample_world sample_block [1] sample_combiner) = (None, None)
   \<and> fst (Find (sample_deps []) [] sample_block [1] sample_combiner) = (None, Some (ErrExternal 8))"
proof -
  have r: "RecordsForID (sample_deps []) (appender sample_block) [1] = []"
    by (simp add: sample_deps_def sample_block_def)
  have n: "fullFilename (sample_deps []) sample_block = ''/wal/'' @ sample_name"
    by (simp add: fullFilename_def sample_deps_def sample_block_def sample_Join_def sample_name_def)
  have o1: "os_OpenFile (sample_deps []) sample_world (''/wal/'' @ sample_name) O_RDONLY = Inr 1"
    by (simp add: sample_deps_def sample_present_def sample_world_def)
  have o2: "os_OpenFile (sample_deps []) [] (''/wal/'' @ sample_name) O_RDONLY = Inl (ErrExternal 8)"
    by (simp add: sample_deps_def sample_present_def)
  have h1: "\<not> once sample_block" "readFile sample_block = None"
    by (simp_all add: sample_block_def)
  from Find_absent [OF r, of sample_world sample_combiner]
       Find_absent [OF r, of "[]" sample_combiner] r n o1 o2 h1
  show ?thesis by simp
qed

text \<open>The claim as it is written fails there: no record has the identifier, the read
  file has never been opened and cannot be, and \<^verbatim>\<open>Find\<close> returns an error.\<close>

theorem Find_absent_counterexample:
  "RecordsForID (sample_deps []) (appender sample_block) [1] = []
   \<and> fst (Find (sample_deps []) [] sample_block [1] sample_combiner) = (None, Some (ErrExternal 8))"
  by (simp add: Find_def file_once_def fullFilename_def sample_deps_def sample_block_def
      sample_Join_def sample_present_def Let_def)

section \<open>The file name round trip\<close>

lemma split_colon_no_colon: "CHR '':'' \<notin> set s \<Longrightarrow> split_colon s = [s]"
  by (induction s) auto

lemma split_colon_field:
  "CHR '':'' \<notin> set a \<Longrightarrow> split_colon (a @ CHR '':'' # b) = a # split_colon b"
  by (induction a) auto

text \<open>
  Claim C2, amended. For a \<^verbatim>\<open>BlockMeta\<close> that meets the constraints of the
  specification, whose tenant, version, UUID text and encoding token have no colon, and
  which, when its version is \<^verbatim>\<open>v0\<close>, has the encoding \<^verbatim>\<open>EncNone\<close> and an empty data
  encoding: the path \<^verbatim>\<open>fullFilename\<close> builds is the directory joined with a file name,
  and \<^verbatim>\<open>parseFilename\<close> of that file name gives back the block id, the tenant, the
  version, the encoding and the data encoding, whether the name has 2, 4 or 5 fields.
\<close>

theorem filename_roundtrip:
  assumes "roundtrip_ok D (meta a)"
  shows "fullFilename D a = filepath_Join D (filepath a) (wal_filename D (meta a))
    \<and> parseFilename D (wal_filename D (meta a))
       = Inr (BlockID (meta a), TenantID (meta a), Version (meta a), Encoding (meta a),
              DataEncoding (meta a))"
proof -
  let ?m = "meta a"
  from assms have u: "uuid_Parse D (uuid_String D (BlockID ?m)) = Inr (BlockID ?m)"
    and uc: "CHR '':'' \<notin> set (uuid_String D (BlockID ?m))"
    and e: "ParseEncoding D (enc_String D (Encoding ?m)) = Inr (Encoding ?m)"
    and ec: "CHR '':'' \<notin> set (enc_String D (Encoding ?m))"
    and t: "TenantID ?m \<noteq> []" and tc: "CHR '':'' \<notin> set (TenantID ?m)"
    and v: "Version ?m \<noteq> []" and vc: "CHR '':'' \<notin> set (Version ?m)"
    and dc: "CHR '':'' \<notin> set (DataEncoding ?m)"
    and v0: "Version ?m = ''v0'' \<Longrightarrow> Encoding ?m = EncNone D \<and> DataEncoding ?m = []"
    by (simp_all add: roundtrip_ok_def meta_constraints_def split: if_splits)
  have p: "parseFilename D (wal_filename D ?m)
       = Inr (BlockID ?m, TenantID ?m, Version ?m, Encoding ?m, DataEncoding ?m)"
  proof (cases "Version ?m = ''v0''")
    case True
    with v0 have en: "Encoding ?m = EncNone D" and de: "DataEncoding ?m = []" by simp_all
    have s: "split_colon (wal_filename D ?m) = [uuid_String D (BlockID ?m), TenantID ?m]"
      using True uc tc by (simp add: wal_filename_def split_colon_field split_colon_no_colon)
    show ?thesis
      using True u e t en de by (simp add: parseFilename_def s Let_def)
  next
    case False
    show ?thesis
    proof (cases "DataEncoding ?m = []")
      case True
      have s: "split_colon (wal_filename D ?m)
          = [uuid_String D (BlockID ?m), TenantID ?m, Version ?m, enc_String D (Encoding ?m)]"
        using False True uc tc vc ec
        by (simp add: wal_filename_def split_colon_field split_colon_no_colon)
      show ?thesis
        using True u e t v by (simp add: parseFilename_def s Let_def)
    next
      case nonempty: False
      have s: "split_colon (wal_filename D ?m)
          = [uuid_String D (BlockID ?m), TenantID ?m, Version ?m, enc_String D (Encoding ?m),
             DataEncoding ?m]"
        using False nonempty uc tc vc ec dc
        by (simp add: wal_filename_def split_colon_field split_colon_no_colon)
      show ?thesis
        using u e t v by (simp add: parseFilename_def s Let_def)
    qed
  qed
  show ?thesis using p by (simp add: fullFilename_Join)
qed

text \<open>The theorem on a name of five fields, of four fields and of two fields.\<close>

lemma roundtrip_ok_sample5: "roundtrip_ok (sample_deps []) (meta sample_block)"
  by (simp add: roundtrip_ok_def meta_constraints_def sample_block_def sample_names
      maxDataEncodingLength_def rune_width_def)
lemma roundtrip_ok_sample4: "roundtrip_ok (sample_deps []) (meta sample_block4)"
  by (simp add: roundtrip_ok_def meta_constraints_def sample_block4_def sample_names
      maxDataEncodingLength_def rune_width_def)
lemma roundtrip_ok_sample2: "roundtrip_ok (sample_deps []) (meta sample_block2)"
  by (simp add: roundtrip_ok_def meta_constraints_def sample_block2_def sample_names
      maxDataEncodingLength_def rune_width_def)

theorem filename_roundtrip_witness:
  "roundtrip_ok (sample_deps []) (meta sample_block)
   \<and> wal_filename (sample_deps []) (meta sample_block) = sample_uuid @ '':tenant:v2:snappy:v1''
   \<and> parseFilename (sample_deps []) (sample_uuid @ '':tenant:v2:snappy:v1'')
        = Inr (sample_uuid, ''tenant'', ''v2'', SampleSnappy, ''v1'')
   \<and> roundtrip_ok (sample_deps []) (meta sample_block4)
   \<and> wal_filename (sample_deps []) (meta sample_block4) = sample_uuid @ '':tenant:v2:gzip''
   \<and> parseFilename (sample_deps []) (sample_uuid @ '':tenant:v2:gzip'')
        = Inr (sample_uuid, ''tenant'', ''v2'', SampleGzip, [])
   \<and> roundtrip_ok (sample_deps []) (meta sample_block2)
   \<and> wal_filename (sample_deps []) (meta sample_block2) = sample_uuid @ '':tenant''
   \<and> parseFilename (sample_deps []) (sample_uuid @ '':tenant'')
        = Inr (sample_uuid, ''tenant'', ''v0'', SampleNone, [])"
proof -
  have n5: "wal_filename (sample_deps []) (meta sample_block) = sample_uuid @ '':tenant:v2:snappy:v1''"
    by (simp add: wal_filename_def sample_block_def sample_deps_def)
  have n4: "wal_filename (sample_deps []) (meta sample_block4) = sample_uuid @ '':tenant:v2:gzip''"
    by (simp add: wal_filename_def sample_block4_def sample_deps_def)
  have n2: "wal_filename (sample_deps []) (meta sample_block2) = sample_uuid @ '':tenant''"
    by (simp add: wal_filename_def sample_block2_def sample_deps_def)
  have m5: "meta sample_block = NewBlockMeta ''tenant'' sample_uuid ''v2'' SampleSnappy ''v1''"
    by (simp add: sample_block_def)
  have m4: "meta sample_block4 = NewBlockMeta ''tenant'' sample_uuid ''v2'' SampleGzip []"
    by (simp add: sample_block4_def)
  have m2: "meta sample_block2 = NewBlockMeta ''tenant'' sample_uuid ''v0'' SampleNone []"
    by (simp add: sample_block2_def)
  from filename_roundtrip [OF roundtrip_ok_sample5] filename_roundtrip [OF roundtrip_ok_sample4] filename_roundtrip [OF roundtrip_ok_sample2]
    roundtrip_ok_sample5 roundtrip_ok_sample4 roundtrip_ok_sample2 n5 n4 n2 m5 m4 m2
  show ?thesis by simp
qed

text \<open>
  The claim as it is written fails at three blocks that meet the constraints it
  states: \<open>sample_block\<close> lives in \<^verbatim>\<open>/wal\<close>, so the path starts with the directory and
  its first field is no UUID; the tenant of \<open>sample_block_colon\<close> is \<^verbatim>\<open>a:b\<close>, so its name
  has five fields and \<^verbatim>\<open>v2\<close> stands where the encoding is read; \<open>sample_block_v0\<close> has
  version \<^verbatim>\<open>v0\<close>, so its name drops the encoding and the data encoding and parsing
  gives the defaults.
\<close>

theorem filename_roundtrip_counterexample:
  "meta_constraints (sample_deps []) (meta sample_block)
   \<and> fullFilename (sample_deps []) sample_block = ''/wal/'' @ sample_uuid @ '':tenant:v2:snappy:v1''
   \<and> parseFilename (sample_deps []) (fullFilename (sample_deps []) sample_block)
        = Inl (ErrParseUUID (''/wal/'' @ sample_uuid @ '':tenant:v2:snappy:v1'') (ErrExternal 2))
   \<and> meta_constraints (sample_deps []) (meta sample_block_colon)
   \<and> fullFilename (sample_deps []) sample_block_colon = sample_uuid @ '':a:b:v2:none''
   \<and> parseFilename (sample_deps []) (fullFilename (sample_deps []) sample_block_colon)
        = Inl (ErrParseEncoding (sample_uuid @ '':a:b:v2:none'') (ErrExternal 1))
   \<and> meta_constraints (sample_deps []) (meta sample_block_v0)
   \<and> Encoding (meta sample_block_v0) = SampleSnappy \<and> DataEncoding (meta sample_block_v0) = ''v1''
   \<and> fullFilename (sample_deps []) sample_block_v0 = sample_uuid @ '':tenant''
   \<and> parseFilename (sample_deps []) (fullFilename (sample_deps []) sample_block_v0)
        = Inr (sample_uuid, ''tenant'', ''v0'', SampleNone, [])"
  by (simp add: meta_constraints_def fullFilename_def parseFilename_def sample_block_def
      sample_block_colon_def sample_block_v0_def sample_names maxDataEncodingLength_def
      rune_width_def Let_def)

section \<open>Replay: fatal errors\<close>

text \<open>
  Claim C3, amended. \<^verbatim>\<open>newAppendBlockFromFile\<close> returns a fatal error in exactly four
  cases: the file name does not parse, the version of the name is unknown to
  \<^verbatim>\<open>encoding.FromVersion\<close>, the file does not open, the data reader cannot be built. With
  a fatal error there is no block and no warning; without one there is a block.
\<close>

theorem newAppendBlockFromFile_fatal:
  "(case fst (newAppendBlockFromFile D w filename path) of (blk, warning, fatal) \<Rightarrow>
      (fatal \<noteq> None \<longleftrightarrow> replay_fatal D w filename path)
      \<and> (fatal \<noteq> None \<longrightarrow> blk = None \<and> warning = None)
      \<and> (fatal = None \<longrightarrow> blk \<noteq> None))"
  by (auto simp: newAppendBlockFromFile_def replay_fatal_def file_once_def fullFilename_Join Let_def
      split: sum.splits prod.splits option.splits)

text \<open>The theorem on a file that replays and on a name whose version is \<^verbatim>\<open>v9\<close>.\<close>

theorem newAppendBlockFromFile_fatal_witness:
  "snd (snd (fst (newAppendBlockFromFile (sample_deps sample_pages) sample_world sample_name ''/wal''))) = None
   \<and> fst (fst (newAppendBlockFromFile (sample_deps sample_pages) sample_world sample_name ''/wal'')) \<noteq> None
   \<and> snd (snd (fst (newAppendBlockFromFile (sample_deps sample_pages) sample_world_v9 sample_name_v9 ''/wal''))) \<noteq> None
   \<and> fst (fst (newAppendBlockFromFile (sample_deps sample_pages) sample_world_v9 sample_name_v9 ''/wal'')) = None
   \<and> fst (snd (fst (newAppendBlockFromFile (sample_deps sample_pages) sample_world_v9 sample_name_v9 ''/wal''))) = None"
proof -
  have ok: "\<not> replay_fatal (sample_deps sample_pages) sample_world sample_name ''/wal''"
    by (simp add: replay_fatal_def parseFilename_def wal_filename_def sample_replay Let_def)
  have bad: "replay_fatal (sample_deps sample_pages) sample_world_v9 sample_name_v9 ''/wal''"
    by (simp add: replay_fatal_def parseFilename_def sample_replay sample_name_v9_def Let_def)
  from newAppendBlockFromFile_fatal [where D = "sample_deps sample_pages" and w = sample_world
      and filename = sample_name and path = "''/wal''"] ok
  have A: "snd (snd (fst (newAppendBlockFromFile (sample_deps sample_pages) sample_world sample_name ''/wal''))) = None
     \<and> fst (fst (newAppendBlockFromFile (sample_deps sample_pages) sample_world sample_name ''/wal'')) \<noteq> None"
    by (simp add: case_prod_beta)
  from newAppendBlockFromFile_fatal [where D = "sample_deps sample_pages" and w = sample_world_v9
      and filename = sample_name_v9 and path = "''/wal''"] bad
  have B: "snd (snd (fst (newAppendBlockFromFile (sample_deps sample_pages) sample_world_v9 sample_name_v9 ''/wal''))) \<noteq> None
     \<and> fst (fst (newAppendBlockFromFile (sample_deps sample_pages) sample_world_v9 sample_name_v9 ''/wal'')) = None
     \<and> fst (snd (fst (newAppendBlockFromFile (sample_deps sample_pages) sample_world_v9 sample_name_v9 ''/wal''))) = None"
    by (simp add: case_prod_beta)
  from A B show ?thesis by simp
qed

text \<open>
  The claim as it is written fails: the name with version \<^verbatim>\<open>v9\<close> parses and its file
  opens, yet replay is fatal, the version being unknown; and with a codec that cannot
  build its reader replay is fatal on a name that parses and a file that opens.
\<close>

theorem newAppendBlockFromFile_fatal_counterexample:
  "parseFilename (sample_deps []) sample_name_v9 = Inr (sample_uuid, ''tenant'', ''v9'', SampleNone, [])
   \<and> os_OpenFile (sample_deps []) sample_world_v9 (''/wal/'' @ sample_name_v9) O_RDONLY = Inr 1
   \<and> fst (newAppendBlockFromFile (sample_deps []) sample_world_v9 sample_name_v9 ''/wal'')
        = (None, None, Some (ErrExternal 3))
   \<and> parseFilename sample_deps_no_reader sample_name = Inr (sample_uuid, ''tenant'', ''v2'', SampleSnappy, ''v1'')
   \<and> os_OpenFile sample_deps_no_reader sample_world (''/wal/'' @ sample_name) O_RDONLY = Inr 1
   \<and> fst (newAppendBlockFromFile sample_deps_no_reader sample_world sample_name ''/wal'')
        = (None, None, Some (ErrExternal 5))"
  by (simp add: newAppendBlockFromFile_def file_once_def fullFilename_def parseFilename_def
      sample_deps_no_reader_def sample_replay sample_name_v9_def sample_world_v9_def Let_def)

section \<open>Replay: the walk over the pages\<close>

text \<open>A page of exactly one object gives a record at the current offset and the walk
  goes on after it; any other answer of the data reader ends the walk.\<close>

lemma page_lengths_append: "page_lengths (xs @ ys) = page_lengths xs @ page_lengths ys"
  by (induction xs rule: page_lengths.induct) simp_all

lemma replayLoop_single:
  assumes "classify_page D v p = Single i"
  shows "\<exists>buffer pageLen. p = Inr (buffer, pageLen)
      \<and> replayLoop D v (p # rest) off recs
          = replayLoop D v rest (off + ucast pageLen)
              (recs @ [\<lparr>ID = i, Start = off, Length = pageLen\<rparr>])"
  using assms by (cases p) (auto split: sum.splits if_splits)

lemma replayLoop_stop:
  assumes "\<forall>i. classify_page D v p \<noteq> Single i"
  shows "fst (replayLoop D v (p # rest) off recs) = recs"
  using assms by (cases p) (auto split: sum.splits if_splits)

text \<open>The records the loop adds are one per page, for the pages before the first one
  that does not hold exactly one object: each has the identifier and the length of its
  page and starts at the offset the loop began with plus the lengths of the pages
  before it.\<close>

lemma replayLoop_index:
  "\<exists>new. fst (replayLoop D v pages off recs) = recs @ new
     \<and> length new \<le> length pages
     \<and> (\<forall>i<length new. \<exists>buffer. pages ! i = Inr (buffer, Length (new ! i))
           \<and> classify_page D v (pages ! i) = Single (ID (new ! i))
           \<and> Start (new ! i) = off + of_nat (sum_list (page_lengths (take i pages))))
     \<and> (length new < length pages
           \<longrightarrow> (\<forall>i. classify_page D v (pages ! length new) \<noteq> Single i))"
proof (induction pages arbitrary: off recs)
  case Nil
  show ?case by simp
next
  case (Cons p pages)
  show ?case
  proof (cases "\<exists>i. classify_page D v p = Single i")
    case False
    then have "fst (replayLoop D v (p # pages) off recs) = recs @ []"
      using replayLoop_stop [of D v p pages off recs] by simp
    with False show ?thesis by (intro exI [of _ "[]"]) simp
  next
    case True
    then obtain i where s: "classify_page D v p = Single i" by blast
    from replayLoop_single [OF s, of pages off recs]
    obtain buffer pageLen where p: "p = Inr (buffer, pageLen)"
      and step: "replayLoop D v (p # pages) off recs
          = replayLoop D v pages (off + ucast pageLen)
              (recs @ [\<lparr>ID = i, Start = off, Length = pageLen\<rparr>])" by blast
    let ?r = "\<lparr>ID = i, Start = off, Length = pageLen\<rparr>"
    from Cons.IH [of "off + ucast pageLen" "recs @ [?r]"]
    obtain new where n: "fst (replayLoop D v pages (off + ucast pageLen) (recs @ [?r]))
          = (recs @ [?r]) @ new"
      and l: "length new \<le> length pages"
      and a: "\<And>j. j < length new \<Longrightarrow> \<exists>buffer. pages ! j = Inr (buffer, Length (new ! j))
           \<and> classify_page D v (pages ! j) = Single (ID (new ! j))
           \<and> Start (new ! j) = off + ucast pageLen + of_nat (sum_list (page_lengths (take j pages)))"
      and e: "length new < length pages
           \<longrightarrow> (\<forall>i. classify_page D v (pages ! length new) \<noteq> Single i)" by blast
    have 1: "fst (replayLoop D v (p # pages) off recs) = recs @ (?r # new)"
      using step n by simp
    have 2: "length (?r # new) \<le> length (p # pages)" using l by simp
    have 3: "\<exists>buffer. (p # pages) ! j = Inr (buffer, Length ((?r # new) ! j))
           \<and> classify_page D v ((p # pages) ! j) = Single (ID ((?r # new) ! j))
           \<and> Start ((?r # new) ! j) = off + of_nat (sum_list (page_lengths (take j (p # pages))))"
      if "j < length (?r # new)" for j
    proof (cases j)
      case 0
      then show ?thesis using p s by simp
    next
      case (Suc k)
      with that have k: "k < length new" by simp
      from a [OF k] Suc p show ?thesis by (simp add: add.assoc)
    qed
    have 4: "length (?r # new) < length (p # pages)
           \<longrightarrow> (\<forall>i. classify_page D v ((p # pages) ! length (?r # new)) \<noteq> Single i)"
      using e by simp
    from 1 2 3 4 show ?thesis by blast
  qed
qed

lemma page_lengths_records:
  assumes "\<forall>i<length new. \<exists>buffer. pages ! i = Inr (buffer, Length (new ! i))"
    and "length new \<le> length pages" and "i \<le> length new"
  shows "page_lengths (take i pages) = take i (record_lengths new)"
  using assms(3)
proof (induction i)
  case 0
  show ?case by simp
next
  case (Suc i)
  then have i: "i < length new" by simp
  with assms(2) have ip: "i < length pages" by simp
  from assms(1) i obtain buffer where b: "pages ! i = Inr (buffer, Length (new ! i))" by blast
  have "take (Suc i) pages = take i pages @ [pages ! i]"
    using ip by (simp add: take_Suc_conv_app_nth)
  moreover have "take (Suc i) (record_lengths new) = take i (record_lengths new) @ [unat (Length (new ! i))]"
    using i by (simp add: take_Suc_conv_app_nth record_lengths_def)
  ultimately show ?case using Suc i b by (simp add: page_lengths_append)
qed

text \<open>Offsets as numbers.\<close>

lemma unat_of_nat_64: "n < 2 ^ 64 \<Longrightarrow> unat (of_nat n :: 64 word) = n"
  by (simp add: unsigned_of_nat take_bit_nat_eq_self_iff)

lemma sum_list_take_le: "sum_list (take k (xs :: nat list)) \<le> sum_list xs"
  by (induction xs arbitrary: k) (auto simp: take_Cons split: nat.splits intro: le_trans)

lemma sum_list_take_Suc:
  "i < length (xs :: nat list) \<Longrightarrow> sum_list (take (Suc i) xs) = sum_list (take i xs) + xs ! i"
  by (simp add: take_Suc_conv_app_nth)

lemma sum_list_take_mono:
  "i \<le> j \<Longrightarrow> sum_list (take i (xs :: nat list)) \<le> sum_list (take j xs)"
proof -
  assume "i \<le> j"
  then have "take i xs = take i (take j xs)" by (simp add: min_def)
  then show ?thesis by (metis sum_list_take_le)
qed

lemma sum_list_take_strict:
  assumes "i < j" "j \<le> length (xs :: nat list)" "0 \<notin> set xs"
  shows "sum_list (take i xs) < sum_list (take j xs)"
proof -
  from assms have i: "i < length xs" by simp
  then have "xs ! i \<in> set xs" by simp
  with assms have pos: "0 < xs ! i" by (metis gr0I)
  have "sum_list (take i xs) < sum_list (take (Suc i) xs)"
    using pos i by (simp add: sum_list_take_Suc)
  also have "\<dots> \<le> sum_list (take j xs)"
    using assms by (intro sum_list_take_mono) simp
  finally show ?thesis .
qed

text \<open>When the pages of the records are non-empty and their lengths sum to less than
  \<open>2 ^ 64\<close>, no offset wraps: every record starts at the sum of the lengths of the pages
  before it, ends where the next one starts, and starts after every earlier one.\<close>

lemma prefix_offsets:
  assumes fit: "pages_fit (take (length (arrival :: Record list)) pages)"
    and len: "length arrival \<le> length pages"
    and idx: "\<forall>i<length arrival. \<exists>buffer. pages ! i = Inr (buffer, Length (arrival ! i))
           \<and> Start (arrival ! i) = of_nat (sum_list (page_lengths (take i pages)))"
  shows "(\<forall>i<length arrival.
            unat (Start (arrival ! i)) = sum_list (page_lengths (take i pages)))
      \<and> (\<forall>i. Suc i < length arrival \<longrightarrow>
            unat (Start (arrival ! Suc i)) = unat (Start (arrival ! i)) + unat (Length (arrival ! i)))
      \<and> (\<forall>i j. i < j \<and> j < length arrival \<longrightarrow> Start (arrival ! i) < Start (arrival ! j))"
proof -
  from idx have pg: "\<forall>i<length arrival. \<exists>buffer. pages ! i = Inr (buffer, Length (arrival ! i))"
    by blast
  have pl: "page_lengths (take i pages) = take i (record_lengths arrival)"
    if "i \<le> length arrival" for i
    using page_lengths_records [OF pg len that] .
  have rl: "page_lengths (take (length arrival) pages) = record_lengths arrival"
    using pl [of "length arrival"] by (simp add: record_lengths_def)
  from fit rl have z: "0 \<notin> set (record_lengths arrival)"
    and s: "sum_list (record_lengths arrival) < 2 ^ 64" by (simp_all add: pages_fit_def)
  have st: "unat (Start (arrival ! i)) = sum_list (take i (record_lengths arrival))"
    if "i < length arrival" for i
  proof -
    have "sum_list (take i (record_lengths arrival)) < 2 ^ 64"
      using sum_list_take_le [of i "record_lengths arrival"] s by simp
    moreover from idx that
    have "Start (arrival ! i) = of_nat (sum_list (take i (record_lengths arrival)))"
      using pl [of i] by auto
    ultimately show ?thesis by (simp add: unat_of_nat_64)
  qed
  have ln: "length (record_lengths arrival) = length arrival" by (simp add: record_lengths_def)
  have nx: "unat (Start (arrival ! Suc i)) = unat (Start (arrival ! i)) + unat (Length (arrival ! i))"
    if "Suc i < length arrival" for i
  proof -
    from that have i: "i < length arrival" by simp
    have "record_lengths arrival ! i = unat (Length (arrival ! i))"
      using i by (simp add: record_lengths_def)
    then show ?thesis
      using st [OF that] st [OF i] sum_list_take_Suc [of i "record_lengths arrival"] i ln by simp
  qed
  have inc: "Start (arrival ! i) < Start (arrival ! j)" if "i < j" "j < length arrival" for i j
  proof -
    from that have i: "i < length arrival" by simp
    have "sum_list (take i (record_lengths arrival)) < sum_list (take j (record_lengths arrival))"
      using that ln z by (intro sum_list_take_strict) simp_all
    then show ?thesis using st [OF i] st [OF that(2)] by (simp add: word_less_nat_alt)
  qed
  have st': "unat (Start (arrival ! i)) = sum_list (page_lengths (take i pages))"
    if "i < length arrival" for i
    using st [OF that] pl [of i] that by simp
  from st' nx inc show ?thesis by blast
qed

text \<open>After pages of one object each, a page that fails with an error stops the walk:
  the records of the pages before it are kept, the error is the warning, the page gives
  no record. A page that stops the walk silently leaves no warning.\<close>

lemma replayLoop_failed_page:
  assumes "list_all (\<lambda>p. \<exists>i. classify_page D v p = Single i) good"
    and "classify_page D v bad = Failed err"
  shows "\<exists>new. replayLoop D v (good @ bad # rest) off recs = (recs @ new, Some err)
      \<and> length new = length good \<and> contiguous_from off new"
  using assms(1)
proof (induction good arbitrary: off recs)
  case Nil
  from assms(2) have "replayLoop D v (bad # rest) off recs = (recs, Some err)"
    by (cases bad) (auto split: sum.splits if_splits)
  then show ?case by simp
next
  case (Cons p good)
  from Cons.prems obtain i where s: "classify_page D v p = Single i"
    and g: "list_all (\<lambda>p. \<exists>i. classify_page D v p = Single i) good" by auto
  from s obtain buffer pageLen where p: "p = Inr (buffer, pageLen)"
    by (cases p) (auto split: if_splits)
  let ?r = "\<lparr>ID = i, Start = off, Length = pageLen\<rparr>"
  from s p have step: "replayLoop D v (p # good @ bad # rest) off recs
      = replayLoop D v (good @ bad # rest) (off + ucast pageLen) (recs @ [?r])"
    by (auto split: sum.splits if_splits)
  from Cons.IH [OF g, of "off + ucast pageLen" "recs @ [?r]"]
  obtain new where n: "replayLoop D v (good @ bad # rest) (off + ucast pageLen) (recs @ [?r])
        = ((recs @ [?r]) @ new, Some err)"
    and l: "length new = length good" and c: "contiguous_from (off + ucast pageLen) new" by blast
  have "replayLoop D v ((p # good) @ bad # rest) off recs = (recs @ (?r # new), Some err)"
    using step n by simp
  moreover have "length (?r # new) = length (p # good)" using l by simp
  moreover have "contiguous_from off (?r # new)" using c by simp
  ultimately show ?case by blast
qed

lemma replayLoop_silent_page:
  assumes "list_all (\<lambda>p. \<exists>i. classify_page D v p = Single i) good"
    and "classify_page D v bad = Silent"
  shows "\<exists>new. replayLoop D v (good @ bad # rest) off recs = (recs @ new, None)
      \<and> length new = length good"
  using assms(1)
proof (induction good arbitrary: off recs)
  case Nil
  from assms(2) have "replayLoop D v (bad # rest) off recs = (recs, None)"
    by (cases bad) (auto split: sum.splits if_splits)
  then show ?case by simp
next
  case (Cons p good)
  from Cons.prems obtain i where s: "classify_page D v p = Single i"
    and g: "list_all (\<lambda>p. \<exists>i. classify_page D v p = Single i) good" by auto
  from s obtain buffer pageLen where p: "p = Inr (buffer, pageLen)"
    by (cases p) (auto split: if_splits)
  let ?r = "\<lparr>ID = i, Start = off, Length = pageLen\<rparr>"
  from s p have step: "replayLoop D v (p # good @ bad # rest) off recs
      = replayLoop D v (good @ bad # rest) (off + ucast pageLen) (recs @ [?r])"
    by (auto split: sum.splits if_splits)
  from Cons.IH [OF g, of "off + ucast pageLen" "recs @ [?r]"]
  obtain new where n: "replayLoop D v (good @ bad # rest) (off + ucast pageLen) (recs @ [?r])
        = ((recs @ [?r]) @ new, None)"
    and l: "length new = length good" by blast
  have "replayLoop D v ((p # good) @ bad # rest) off recs = (recs @ (?r # new), None)"
    using step n by simp
  moreover have "length (?r # new) = length (p # good)" using l by simp
  ultimately show ?case by blast
qed

section \<open>Replay: a page with a second object\<close>

text \<open>
  Claim C4, on the code: when the second decode of a page succeeds, the loop stops
  and the page gives no record, but the warning it returns is nil: \<^verbatim>\<open>warning = err\<close>
  stores the nil error of the successful decode. The claim says the violation is
  reported as a warning.
\<close>

theorem replayLoop_second_object:
  assumes "UnmarshalObjectFromReader D v buffer = Inr (i, obj, reader)"
    and "UnmarshalObjectFromReader D v reader = Inr second"
  shows "replayLoop D v (Inr (buffer, pageLen) # rest) currentOffset records = (records, None)"
  using assms by simp

theorem replayLoop_second_object_witness:
  "UnmarshalObjectFromReader (sample_deps []) ''v2'' (sample_object [1] [7] @ sample_object [2] [8])
      = Inr ([1], [7], sample_object [2] [8])
   \<and> UnmarshalObjectFromReader (sample_deps []) ''v2'' (sample_object [2] [8]) = Inr ([2], [8], [])
   \<and> replayLoop (sample_deps []) ''v2''
        [Inr (sample_object [1] [7] @ sample_object [2] [8], 14), Inr (sample_object [2] [5], 9)]
        10 [\<lparr>ID = [3], Start = 0, Length = 10\<rparr>]
      = ([\<lparr>ID = [3], Start = 0, Length = 10\<rparr>], None)"
proof -
  have u1: "UnmarshalObjectFromReader (sample_deps []) ''v2'' (sample_object [1] [7] @ sample_object [2] [8])
      = Inr ([1], [7], sample_object [2] [8])"
    by (simp add: sample_deps_def sample_Unmarshal_def sample_object_def)
  have u2: "UnmarshalObjectFromReader (sample_deps []) ''v2'' (sample_object [2] [8]) = Inr ([2], [8], [])"
    by (simp add: sample_deps_def sample_Unmarshal_def sample_object_def)
  from replayLoop_second_object [OF u1 u2] u1 u2 show ?thesis by simp
qed

text \<open>
  Claim C1, on the code: a data file whose second page holds two objects. Replay keeps
  the record of the first page, drops the second page and stops, and returns neither a
  warning nor a fatal error. The claim says the failure is returned as a warning.
\<close>

theorem replay_two_object_page:
  "fst (newAppendBlockFromFile (sample_deps sample_pages_two_objects) sample_world sample_name ''/wal'')
     = (Some \<lparr>meta = (NewBlockMeta ''tenant'' sample_uuid ''v2'' SampleSnappy ''v1'')\<lparr>TotalObjects := 1\<rparr>,
              encoding = ''v2'', appendFile = None, filepath = ''/wal'', readFile = Some 1,
              once = True, appender = [\<lparr>ID = [3], Start = 0, Length = 10\<rparr>]\<rparr>,
        None, None)"
  by (simp add: newAppendBlockFromFile_def file_once_def fullFilename_def parseFilename_def
      sample_replay sample_pages_two_objects_def SortRecords_def with_appender_def NewBlockMeta_def Let_def)

text \<open>A data file whose third page is cut short, for comparison: the two records are
  kept and the decode error is the warning.\<close>

lemma replay_truncated_page:
  "fst (newAppendBlockFromFile (sample_deps sample_pages_truncated) sample_world sample_name ''/wal'')
     = (Some \<lparr>meta = (NewBlockMeta ''tenant'' sample_uuid ''v2'' SampleSnappy ''v1'')\<lparr>TotalObjects := 2\<rparr>,
              encoding = ''v2'', appendFile = None, filepath = ''/wal'', readFile = Some 1,
              once = True, appender = [\<lparr>ID = [1], Start = 10, Length = 9\<rparr>, \<lparr>ID = [3], Start = 0, Length = 10\<rparr>]\<rparr>,
        Some (ErrExternal 4), None)"
  by (simp add: newAppendBlockFromFile_def file_once_def fullFilename_def parseFilename_def
      sample_replay sample_pages_truncated_def SortRecords_def with_appender_def NewBlockMeta_def Let_def)

section \<open>Replay: the record index\<close>

text \<open>The data reader that replay walks is the one over the block's own data file, opened
  read-only; the block's appender gets the sorted records of the walk.\<close>

lemma newAppendBlockFromFile_reader:
  assumes "fst (newAppendBlockFromFile D w filename path) = (Some b, warning, fatal)"
  shows "\<exists>pages. NewDataReader D (encoding b) (w @ [SysOpen (fullFilename D b) O_RDONLY])
            (readFile b) (Encoding (meta b)) = Inr pages
      \<and> appender b = NewRecordAppender D (SortRecords (fst (replayLoop D (encoding b) pages 0 [])))
      \<and> warning = snd (replayLoop D (encoding b) pages 0 [])"
  using assms
  by (auto simp: newAppendBlockFromFile_def file_once_def fullFilename_def with_appender_def Let_def
      split: sum.splits prod.splits option.splits)

text \<open>
  Claim C9. When replay gives a block, let \<open>pages\<close> be the answers of the data reader
  over the block's data file. The index handed to the block's appender is the list
  \<open>arrival\<close> sorted by identifier (identifiers ascending, same records), where
  \<open>arrival\<close> has one record for each page before the first answer that is not a page
  of exactly one object, in the order of the file: record \<open>i\<close> has the identifier
  decoded from page \<open>i\<close> and the length of page \<open>i\<close>, and its start offset is the sum
  of the lengths of the pages before page \<open>i\<close>, as a 64-bit number. When those pages
  are non-empty and their lengths sum to less than \<open>2 ^ 64\<close>, the offset is that sum
  exactly, each record ends where the next one starts, and the offsets strictly increase
  in arrival order.
\<close>

theorem replay_index_invariant:
  assumes "fst (newAppendBlockFromFile D w filename path) = (Some b, warning, fatal)"
  shows "\<exists>pages arrival.
        NewDataReader D (encoding b) (w @ [SysOpen (fullFilename D b) O_RDONLY])
            (readFile b) (Encoding (meta b)) = Inr pages
      \<and> appender b = NewRecordAppender D (SortRecords arrival)
      \<and> sorted (map ID (SortRecords arrival)) \<and> mset (SortRecords arrival) = mset arrival
      \<and> length arrival \<le> length pages
      \<and> (\<forall>i<length arrival. \<exists>buffer. pages ! i = Inr (buffer, Length (arrival ! i))
            \<and> classify_page D (encoding b) (pages ! i) = Single (ID (arrival ! i))
            \<and> Start (arrival ! i) = of_nat (sum_list (page_lengths (take i pages))))
      \<and> (length arrival < length pages
            \<longrightarrow> (\<forall>i. classify_page D (encoding b) (pages ! length arrival) \<noteq> Single i))
      \<and> (pages_fit (take (length arrival) pages) \<longrightarrow>
            (\<forall>i<length arrival.
                unat (Start (arrival ! i)) = sum_list (page_lengths (take i pages)))
          \<and> (\<forall>i. Suc i < length arrival \<longrightarrow>
                unat (Start (arrival ! Suc i))
                  = unat (Start (arrival ! i)) + unat (Length (arrival ! i)))
          \<and> (\<forall>i j. i < j \<and> j < length arrival \<longrightarrow> Start (arrival ! i) < Start (arrival ! j)))"
proof -
  from newAppendBlockFromFile_reader [OF assms]
  obtain pages where r: "NewDataReader D (encoding b) (w @ [SysOpen (fullFilename D b) O_RDONLY])
            (readFile b) (Encoding (meta b)) = Inr pages"
    and a: "appender b
        = NewRecordAppender D (SortRecords (fst (replayLoop D (encoding b) pages 0 [])))"
    by blast
  let ?arrival = "fst (replayLoop D (encoding b) pages 0 [])"
  from replayLoop_index [of D "encoding b" pages 0 "[]"]
  have l: "length ?arrival \<le> length pages"
    and i: "\<forall>i<length ?arrival. \<exists>buffer. pages ! i = Inr (buffer, Length (?arrival ! i))
            \<and> classify_page D (encoding b) (pages ! i) = Single (ID (?arrival ! i))
            \<and> Start (?arrival ! i) = of_nat (sum_list (page_lengths (take i pages)))"
    and e: "length ?arrival < length pages
            \<longrightarrow> (\<forall>i. classify_page D (encoding b) (pages ! length ?arrival) \<noteq> Single i)"
    by auto
  have s: "sorted (map ID (SortRecords ?arrival))" by (simp add: SortRecords_def)
  have m: "mset (SortRecords ?arrival) = mset ?arrival" by (simp add: SortRecords_def)
  have o: "pages_fit (take (length ?arrival) pages) \<longrightarrow>
            (\<forall>i<length ?arrival.
                unat (Start (?arrival ! i)) = sum_list (page_lengths (take i pages)))
          \<and> (\<forall>i. Suc i < length ?arrival \<longrightarrow>
                unat (Start (?arrival ! Suc i))
                  = unat (Start (?arrival ! i)) + unat (Length (?arrival ! i)))
          \<and> (\<forall>i j. i < j \<and> j < length ?arrival \<longrightarrow> Start (?arrival ! i) < Start (?arrival ! j))"
  proof
    assume fit: "pages_fit (take (length ?arrival) pages)"
    from i have i': "\<forall>i<length ?arrival. \<exists>buffer. pages ! i = Inr (buffer, Length (?arrival ! i))
           \<and> Start (?arrival ! i) = of_nat (sum_list (page_lengths (take i pages)))" by blast
    from prefix_offsets [OF fit l i'] show "(\<forall>i<length ?arrival.
                unat (Start (?arrival ! i)) = sum_list (page_lengths (take i pages)))
          \<and> (\<forall>i. Suc i < length ?arrival \<longrightarrow>
                unat (Start (?arrival ! Suc i))
                  = unat (Start (?arrival ! i)) + unat (Length (?arrival ! i)))
          \<and> (\<forall>i j. i < j \<and> j < length ?arrival \<longrightarrow> Start (?arrival ! i) < Start (?arrival ! j))" .
  qed
  from r a s m l i e o show ?thesis by blast
qed

text \<open>The theorem on two data files: \<open>sample_pages\<close>, three whole pages written in the
  order 3, 1, 2 of identifiers, and \<open>sample_pages_cut\<close>, where the walk stops at the
  second page and the whole third page gives no record.\<close>

lemma replay_sample:
  "fst (newAppendBlockFromFile (sample_deps sample_pages) sample_world sample_name ''/wal'')
     = (Some sample_replayed, None, None)"
  by (simp add: newAppendBlockFromFile_def file_once_def fullFilename_def parseFilename_def
      sample_replay sample_pages_def SortRecords_def with_appender_def NewBlockMeta_def
      sample_replayed_def Let_def)

lemma replay_sample_cut:
  "fst (newAppendBlockFromFile (sample_deps sample_pages_cut) sample_world sample_name ''/wal'')
     = (Some sample_replayed_cut, Some (ErrExternal 4), None)"
  by (simp add: newAppendBlockFromFile_def file_once_def fullFilename_def parseFilename_def
      sample_replay sample_pages_cut_def SortRecords_def with_appender_def NewBlockMeta_def
      sample_replayed_cut_def Let_def)

lemma sample_pages_classified:
  "classify_page (sample_deps ps) ''v2'' (sample_pages ! 0) = Single [3]"
  "classify_page (sample_deps ps) ''v2'' (sample_pages ! 1) = Single [1]"
  "classify_page (sample_deps ps) ''v2'' (sample_pages ! 2) = Single [2]"
  by (simp_all add: sample_deps_def sample_Unmarshal_def sample_object_def sample_pages_def)

lemma sample_pages_cut_classified:
  "classify_page (sample_deps ps) ''v2'' (sample_pages_cut ! 0) = Single [3]"
  "classify_page (sample_deps ps) ''v2'' (sample_pages_cut ! 1) = Failed (ErrExternal 4)"
  "classify_page (sample_deps ps) ''v2'' (sample_pages_cut ! 2) = Single [2]"
  by (simp_all add: sample_deps_def sample_Unmarshal_def sample_object_def sample_pages_cut_def)

lemma sample_reader:
  "NewDataReader (sample_deps ps) v w' (Some h) e = Inr pages \<Longrightarrow> pages = ps"
  by (simp add: sample_deps_def)

theorem replay_index_invariant_witness:
  "(fst (newAppendBlockFromFile (sample_deps sample_pages) sample_world sample_name ''/wal'')
      = (Some sample_replayed, None, None)
    \<and> (\<exists>arrival. length arrival = 3
        \<and> pages_fit (take (length arrival) sample_pages)
        \<and> appender sample_replayed
            = NewRecordAppender (sample_deps sample_pages) (SortRecords arrival)
        \<and> sorted (map ID (SortRecords arrival)) \<and> mset (SortRecords arrival) = mset arrival
        \<and> (\<forall>i<length arrival. \<exists>buffer. sample_pages ! i = Inr (buffer, Length (arrival ! i))
              \<and> classify_page (sample_deps sample_pages) ''v2'' (sample_pages ! i)
                  = Single (ID (arrival ! i))
              \<and> Start (arrival ! i) = of_nat (sum_list (page_lengths (take i sample_pages))))
        \<and> (\<forall>i<length arrival.
              unat (Start (arrival ! i)) = sum_list (page_lengths (take i sample_pages)))
        \<and> (\<forall>i. Suc i < length arrival \<longrightarrow>
              unat (Start (arrival ! Suc i))
                = unat (Start (arrival ! i)) + unat (Length (arrival ! i)))
        \<and> (\<forall>i j. i < j \<and> j < length arrival \<longrightarrow> Start (arrival ! i) < Start (arrival ! j))))
   \<and> (fst (newAppendBlockFromFile (sample_deps sample_pages_cut) sample_world sample_name ''/wal'')
      = (Some sample_replayed_cut, Some (ErrExternal 4), None)
    \<and> (\<exists>arrival. length arrival = 1 \<and> length arrival < length sample_pages_cut
        \<and> pages_fit (take (length arrival) sample_pages_cut)
        \<and> appender sample_replayed_cut
            = NewRecordAppender (sample_deps sample_pages_cut) (SortRecords arrival)
        \<and> (\<forall>i<length arrival. \<exists>buffer. sample_pages_cut ! i = Inr (buffer, Length (arrival ! i))
              \<and> classify_page (sample_deps sample_pages_cut) ''v2'' (sample_pages_cut ! i)
                  = Single (ID (arrival ! i))
              \<and> Start (arrival ! i) = of_nat (sum_list (page_lengths (take i sample_pages_cut))))
        \<and> (\<forall>i. classify_page (sample_deps sample_pages_cut) ''v2''
                  (sample_pages_cut ! length arrival) \<noteq> Single i)))"
proof -
  let ?D = "sample_deps sample_pages"
  have enc: "encoding sample_replayed = ''v2''" "readFile sample_replayed = Some 1"
    by (simp_all add: sample_replayed_def)
  from replay_index_invariant [OF replay_sample]
  obtain pages arrival where
        r: "NewDataReader ?D (encoding sample_replayed)
              (sample_world @ [SysOpen (fullFilename ?D sample_replayed) O_RDONLY])
              (readFile sample_replayed) (Encoding (meta sample_replayed)) = Inr pages"
    and a: "appender sample_replayed = NewRecordAppender ?D (SortRecords arrival)"
    and s: "sorted (map ID (SortRecords arrival))" "mset (SortRecords arrival) = mset arrival"
    and l: "length arrival \<le> length pages"
    and i: "\<forall>i<length arrival. \<exists>buffer. pages ! i = Inr (buffer, Length (arrival ! i))
            \<and> classify_page ?D (encoding sample_replayed) (pages ! i) = Single (ID (arrival ! i))
            \<and> Start (arrival ! i) = of_nat (sum_list (page_lengths (take i pages)))"
    and e: "length arrival < length pages
            \<longrightarrow> (\<forall>i. classify_page ?D (encoding sample_replayed) (pages ! length arrival) \<noteq> Single i)"
    and o: "pages_fit (take (length arrival) pages) \<longrightarrow>
            (\<forall>i<length arrival.
                unat (Start (arrival ! i)) = sum_list (page_lengths (take i pages)))
          \<and> (\<forall>i. Suc i < length arrival \<longrightarrow>
                unat (Start (arrival ! Suc i))
                  = unat (Start (arrival ! i)) + unat (Length (arrival ! i)))
          \<and> (\<forall>i j. i < j \<and> j < length arrival \<longrightarrow> Start (arrival ! i) < Start (arrival ! j))"
    by blast
  from r have p: "pages = sample_pages" unfolding enc by (rule sample_reader)
  have lp: "length sample_pages = 3" by (simp add: sample_pages_def)
  have n0: "length arrival \<noteq> 0" using e p lp sample_pages_classified(1) [of sample_pages] enc
    by auto
  have n1: "length arrival \<noteq> 1" using e p lp sample_pages_classified(2) [of sample_pages] enc
    by auto
  have n2: "length arrival \<noteq> 2" using e p lp sample_pages_classified(3) [of sample_pages] enc
    by auto
  from l p lp have "length arrival \<le> 3" by simp
  with n0 n1 n2 have l3: "length arrival = 3" by arith
  have fit: "pages_fit (take (length arrival) sample_pages)"
    unfolding l3 by (simp add: pages_fit_def sample_pages_def)
  from o fit p have o': "(\<forall>i<length arrival.
                unat (Start (arrival ! i)) = sum_list (page_lengths (take i sample_pages)))
          \<and> (\<forall>i. Suc i < length arrival \<longrightarrow>
                unat (Start (arrival ! Suc i))
                  = unat (Start (arrival ! i)) + unat (Length (arrival ! i)))
          \<and> (\<forall>i j. i < j \<and> j < length arrival \<longrightarrow> Start (arrival ! i) < Start (arrival ! j))"
    by blast
  from i p enc have i': "\<forall>i<length arrival. \<exists>buffer. sample_pages ! i = Inr (buffer, Length (arrival ! i))
              \<and> classify_page ?D ''v2'' (sample_pages ! i) = Single (ID (arrival ! i))
              \<and> Start (arrival ! i) = of_nat (sum_list (page_lengths (take i sample_pages)))"
    by simp
  from l3 fit a s i' o' have first: "\<exists>arrival. length arrival = 3
        \<and> pages_fit (take (length arrival) sample_pages)
        \<and> appender sample_replayed = NewRecordAppender ?D (SortRecords arrival)
        \<and> sorted (map ID (SortRecords arrival)) \<and> mset (SortRecords arrival) = mset arrival
        \<and> (\<forall>i<length arrival. \<exists>buffer. sample_pages ! i = Inr (buffer, Length (arrival ! i))
              \<and> classify_page ?D ''v2'' (sample_pages ! i) = Single (ID (arrival ! i))
              \<and> Start (arrival ! i) = of_nat (sum_list (page_lengths (take i sample_pages))))
        \<and> (\<forall>i<length arrival.
              unat (Start (arrival ! i)) = sum_list (page_lengths (take i sample_pages)))
        \<and> (\<forall>i. Suc i < length arrival \<longrightarrow>
              unat (Start (arrival ! Suc i))
                = unat (Start (arrival ! i)) + unat (Length (arrival ! i)))
        \<and> (\<forall>i j. i < j \<and> j < length arrival \<longrightarrow> Start (arrival ! i) < Start (arrival ! j))"
    by blast
  let ?C = "sample_deps sample_pages_cut"
  have encc: "encoding sample_replayed_cut = ''v2''" "readFile sample_replayed_cut = Some 1"
    by (simp_all add: sample_replayed_cut_def)
  from replay_index_invariant [OF replay_sample_cut]
  obtain pagesc cut where
        rc: "NewDataReader ?C (encoding sample_replayed_cut)
              (sample_world @ [SysOpen (fullFilename ?C sample_replayed_cut) O_RDONLY])
              (readFile sample_replayed_cut) (Encoding (meta sample_replayed_cut)) = Inr pagesc"
    and ac: "appender sample_replayed_cut = NewRecordAppender ?C (SortRecords cut)"
    and lc: "length cut \<le> length pagesc"
    and ic: "\<forall>i<length cut. \<exists>buffer. pagesc ! i = Inr (buffer, Length (cut ! i))
            \<and> classify_page ?C (encoding sample_replayed_cut) (pagesc ! i) = Single (ID (cut ! i))
            \<and> Start (cut ! i) = of_nat (sum_list (page_lengths (take i pagesc)))"
    and ec: "length cut < length pagesc
            \<longrightarrow> (\<forall>i. classify_page ?C (encoding sample_replayed_cut) (pagesc ! length cut) \<noteq> Single i)"
    by blast
  from rc have pc: "pagesc = sample_pages_cut" unfolding encc by (rule sample_reader)
  have lpc: "length sample_pages_cut = 3" by (simp add: sample_pages_cut_def)
  have c0: "length cut \<noteq> 0"
    using ec pc lpc sample_pages_cut_classified(1) [of sample_pages_cut] encc by auto
  have c2: "\<not> 1 < length cut"
    using ic pc sample_pages_cut_classified(2) [of sample_pages_cut] encc by auto
  from c0 c2 have l1: "length cut = 1" by arith
  have fitc: "pages_fit (take (length cut) sample_pages_cut)"
    unfolding l1 by (simp add: pages_fit_def sample_pages_cut_def)
  from ic pc encc have ic': "\<forall>i<length cut. \<exists>buffer. sample_pages_cut ! i = Inr (buffer, Length (cut ! i))
              \<and> classify_page ?C ''v2'' (sample_pages_cut ! i) = Single (ID (cut ! i))
              \<and> Start (cut ! i) = of_nat (sum_list (page_lengths (take i sample_pages_cut)))"
    by simp
  from ec pc encc l1 lpc
  have ec': "\<forall>i. classify_page ?C ''v2'' (sample_pages_cut ! length cut) \<noteq> Single i" by simp
  from l1 lpc have lt: "length cut < length sample_pages_cut" by simp
  from l1 lt fitc ac ic' ec' have second: "\<exists>arrival. length arrival = 1
        \<and> length arrival < length sample_pages_cut
        \<and> pages_fit (take (length arrival) sample_pages_cut)
        \<and> appender sample_replayed_cut = NewRecordAppender ?C (SortRecords arrival)
        \<and> (\<forall>i<length arrival. \<exists>buffer. sample_pages_cut ! i = Inr (buffer, Length (arrival ! i))
              \<and> classify_page ?C ''v2'' (sample_pages_cut ! i) = Single (ID (arrival ! i))
              \<and> Start (arrival ! i) = of_nat (sum_list (page_lengths (take i sample_pages_cut))))
        \<and> (\<forall>i. classify_page ?C ''v2'' (sample_pages_cut ! length arrival) \<noteq> Single i)"
    by blast
  from replay_sample first replay_sample_cut second show ?thesis by blast
qed

end
